theory Spec2Isabelle
  imports Complex_Main "HOL-Library.Sublist"
begin

section \<open>Strings\<close>

text \<open>
  A string is the list of the bytes of its UTF-8 encoding; the strings the code compares
  with are ASCII.
\<close>

text \<open>\<open>s.startsWith(p)\<close>\<close>

definition startsWith :: "string \<Rightarrow> string \<Rightarrow> bool" where
  "startsWith s p = (take (length p) s = p)"

section \<open>The request gatekeeper (src/middleware.ts)\<close>

type_synonym uuid = string

text \<open>
  \<open>request.nextUrl\<close>: the path and the query parameters, in order. \<open>searchParams_set\<close> is
  \<open>URLSearchParams.set\<close>: the first entry of that name takes the value and the later ones
  are removed; a name that is absent is appended.
\<close>

record url =
  pathname :: string
  searchParams :: "(string \<times> string) list"

fun searchParams_set :: "string \<Rightarrow> string \<Rightarrow> (string \<times> string) list \<Rightarrow> (string \<times> string) list" where
  "searchParams_set k v [] = [(k, v)]"
| "searchParams_set k v (p # ps) =
     (if fst p = k then (k, v) # filter (\<lambda>q. fst q \<noteq> k) ps else p # searchParams_set k v ps)"

text \<open>\<open>URLSearchParams.get\<close>: the first value of that name.\<close>

definition searchParams_get :: "string \<Rightarrow> (string \<times> string) list \<Rightarrow> string option" where
  "searchParams_get k ps = map_of ps k"

text \<open>What the middleware returns: \<open>NextResponse.next\<close> or \<open>NextResponse.redirect(url)\<close>.\<close>

datatype decision = Next_response | Redirect url

definition publicRoutes :: "string list" where
  "publicRoutes = [''/login'', ''/signup'']"

definition isPublicRoute :: "string \<Rightarrow> bool" where
  "isPublicRoute path = list_ex (\<lambda>route. startsWith path route) publicRoutes"

text \<open>
  \<open>middleware(request)\<close>: \<open>user\<close> is the result of \<open>supabase.auth.getUser()\<close>
  (\<open>None\<close> when there is no session), \<open>nextUrl\<close> is \<open>request.nextUrl\<close>.
\<close>

definition middleware :: "uuid option \<Rightarrow> url \<Rightarrow> decision" where
  "middleware user nextUrl =
     (let path = pathname nextUrl in
      if user = None \<and> \<not> isPublicRoute path then
        Redirect (nextUrl\<lparr>pathname := ''/login'',
                           searchParams := searchParams_set ''redirectedFrom'' path (searchParams nextUrl)\<rparr>)
      else if user \<noteq> None \<and> (path = ''/login'' \<or> path = ''/signup'') then
        Redirect (nextUrl\<lparr>pathname := ''/''\<rparr>)
      else Next_response)"

text \<open>
  The gatekeeper as the specification words it, over one notion of "auth page":
  no session and not an auth page gives the redirect to the login page with the original
  path as a parameter, a session on an auth page gives the redirect to the default page,
  everything else passes.
\<close>

definition gatekeeper_spec :: "(string \<Rightarrow> bool) \<Rightarrow> uuid option \<Rightarrow> url \<Rightarrow> decision" where
  "gatekeeper_spec is_auth_page user nextUrl =
     (let path = pathname nextUrl in
      if user = None \<and> \<not> is_auth_page path then
        Redirect (nextUrl\<lparr>pathname := ''/login'',
                           searchParams := searchParams_set ''redirectedFrom'' path (searchParams nextUrl)\<rparr>)
      else if user \<noteq> None \<and> is_auth_page path then
        Redirect (nextUrl\<lparr>pathname := ''/''\<rparr>)
      else Next_response)"

text \<open>The two readings of "auth page": the page itself, or any path that extends it.\<close>

definition auth_page_exact :: "string \<Rightarrow> bool" where
  "auth_page_exact path = (path = ''/login'' \<or> path = ''/signup'')"

definition auth_page_prefix :: "string \<Rightarrow> bool" where
  "auth_page_prefix path = (prefix ''/login'' path \<or> prefix ''/signup'' path)"

section \<open>The overdue classification (src/components/tasks/TaskList.tsx)\<close>

text \<open>
  A task row as the type \<open>Task\<close> of src/types/database.ts has it, every timestamp a string.
  The columns \<open>status\<close> and \<open>priority\<close> have no NOT NULL constraint in the schema, so they
  are optional here.
\<close>

record task =
  id_task :: uuid
  user_id :: uuid
  title :: string
  description :: "string option"
  status :: "string option"
  priority :: "string option"
  category :: "string option"
  due_date :: "string option"
  completed_at :: "string option"
  created_at :: string
  updated_at :: string



section \<open>JSON values and the JavaScript operators the handlers apply to them\<close>

text \<open>
  A field of a parsed request body: absent (\<open>undefined\<close>), \<open>null\<close>, a boolean, a finite
  number (every finite double is a rational), a number the parser reads as \<open>Infinity\<close> or
  \<open>-Infinity\<close> (a literal beyond the range of a double, such as \<open>1e309\<close>), a string, or an
  object or array.
\<close>

datatype jsval =
  JUndefined | JNull | JBool bool | JNum rat | JInfinity | JString string | JObject

fun truthy :: "jsval \<Rightarrow> bool" where
  "truthy JUndefined = False"
| "truthy JNull = False"
| "truthy (JBool b) = b"
| "truthy (JNum n) = (n \<noteq> 0)"
| "truthy JInfinity = True"
| "truthy (JString s) = (s \<noteq> [])"
| "truthy JObject = True"

text \<open>\<open>a || b\<close>\<close>

definition js_or :: "jsval \<Rightarrow> jsval \<Rightarrow> jsval" where
  "js_or a b = (if truthy a then a else b)"

datatype exn = TypeError

section \<open>The tables (schema of the repository, src/types/database.ts)\<close>

text \<open>
  The rows of the other tables. The generated timestamps of the profiles, comments and
  attachments are left out: no handler reads or writes them.
\<close>

record profile =
  id_profile :: uuid
  full_name :: "string option"
  email :: string
  avatar_url :: "string option"

record task_share =
  id_share :: uuid
  task_id :: uuid
  shared_with_user_id :: uuid
  shared_by_user_id :: uuid
  permission :: "string option"
  share_created_at :: string

record comment =
  id_comment :: uuid
  comment_task_id :: uuid
  comment_user_id :: uuid
  content :: string

record attachment =
  id_attachment :: uuid
  attachment_task_id :: uuid
  attachment_user_id :: uuid
  file_name :: string
  file_path :: string
  file_size :: "int option"
  file_type :: "string option"

text \<open>
  The backend: the rows of each table in storage order, and the queries the handlers have
  sent to it through \<open>supabase.from(table)\<close>, oldest first.
\<close>

datatype verb = SELECT | INSERT | UPDATE | DELETE

record backend =
  profiles :: "profile list"
  tasks :: "task list"
  task_shares :: "task_share list"
  comments :: "comment list"
  attachments :: "attachment list"
  issued :: "(verb \<times> string) list"

text \<open>
  What the JavaScript engine and the database engine supply and the repository does not
  define: \<open>String.prototype.trim\<close>; the cast of a text to \<open>TIMESTAMPTZ\<close> (\<open>None\<close> when the
  text is no timestamp; the result is the text the backend returns for the stored value);
  the text form of a JSON value that is not a string; the operator \<open>ILIKE\<close> for a pattern,
  as the predicate on values, or \<open>None\<close> when the backend answers the query with an error;
  \<open>NOW()\<close> and \<open>gen_random_uuid()\<close>.
\<close>

record engines =
  trim :: "string \<Rightarrow> string"
  timestamptz_in :: "string \<Rightarrow> string option"
  json_text :: "jsval \<Rightarrow> string"
  ilike :: "string \<Rightarrow> (string \<Rightarrow> bool) option"
  now :: string
  gen_random_uuid :: uuid

text \<open>\<open>v.trim()\<close>: only a string has the method; on anything else the call throws.\<close>

fun js_trim :: "engines \<Rightarrow> jsval \<Rightarrow> exn + string" where
  "js_trim E (JString s) = Inr (trim E s)"
| "js_trim E v = Inl TypeError"

text \<open>\<open>v?.trim()\<close>: \<open>undefined\<close> on \<open>undefined\<close> and \<open>null\<close>.\<close>

fun js_opt_trim :: "engines \<Rightarrow> jsval \<Rightarrow> exn + jsval" where
  "js_opt_trim E JUndefined = Inr JUndefined"
| "js_opt_trim E JNull = Inr JUndefined"
| "js_opt_trim E (JString s) = Inr (JString (trim E s))"
| "js_opt_trim E v = Inl TypeError"

text \<open>\<open>v?.trim() || null\<close>\<close>

definition trim_or_null :: "engines \<Rightarrow> jsval \<Rightarrow> exn + jsval" where
  "trim_or_null E v = (case js_opt_trim E v of Inl e \<Rightarrow> Inl e | Inr w \<Rightarrow> Inr (js_or w JNull))"

datatype pg_error =
    Not_null_violation | Check_violation | Invalid_datetime | Unique_violation
  | Foreign_key_violation | Policy_violation | Not_a_single_row | Untranslatable_character
  | Query_failed

definition log_query :: "verb \<Rightarrow> string \<Rightarrow> backend \<Rightarrow> backend" where
  "log_query v tbl db = db\<lparr>issued := issued db @ [(v, tbl)]\<rparr>"

text \<open>\<open>.single()\<close>: the row when the query has exactly one, otherwise no data and an error.\<close>

definition single :: "'a list \<Rightarrow> 'a option" where
  "single rows = (case rows of [r] \<Rightarrow> Some r | _ \<Rightarrow> None)"

subsection \<open>Row-level policies of the schema\<close>

definition policy_task_shares_select :: "uuid \<Rightarrow> task_share \<Rightarrow> bool" where
  "policy_task_shares_select uid s = (shared_by_user_id s = uid \<or> shared_with_user_id s = uid)"

definition policy_tasks_select :: "backend \<Rightarrow> uuid \<Rightarrow> task \<Rightarrow> bool" where
  "policy_tasks_select db uid t =
     (uid = user_id t \<or>
      id_task t \<in> set (map task_id
        (filter (\<lambda>s. shared_with_user_id s = uid)
          (filter (policy_task_shares_select uid) (task_shares db)))))"

definition policy_tasks_write :: "uuid \<Rightarrow> task \<Rightarrow> bool" where
  "policy_tasks_write uid t = (uid = user_id t)"

definition policy_task_shares_insert :: "backend \<Rightarrow> uuid \<Rightarrow> task_share \<Rightarrow> bool" where
  "policy_task_shares_insert db uid s =
     (shared_by_user_id s = uid \<and>
      list_ex (\<lambda>t. id_task t = task_id s \<and> user_id t = uid)
        (filter (policy_tasks_select db uid) (tasks db)))"

definition policy_on_accessible_task :: "backend \<Rightarrow> uuid \<Rightarrow> uuid \<Rightarrow> bool" where
  "policy_on_accessible_task db uid tid =
     (tid \<in> set (map id_task
        (filter (\<lambda>t. user_id t = uid \<or>
                      id_task t \<in> set (map task_id
                        (filter (\<lambda>s. shared_with_user_id s = uid)
                          (filter (policy_task_shares_select uid) (task_shares db)))))
          (filter (policy_tasks_select db uid) (tasks db)))))"

subsection \<open>Responses\<close>

text \<open>The columns \<open>id, full_name, email\<close> of a profile, as the joins select them.\<close>

record profile_ref =
  ref_id :: uuid
  ref_full_name :: "string option"
  ref_email :: string

definition profile_ref_of :: "profile \<Rightarrow> profile_ref" where
  "profile_ref_of p = \<lparr>ref_id = id_profile p, ref_full_name = full_name p, ref_email = email p\<rparr>"

text \<open>The profile a foreign key points to (\<open>null\<close> when there is none).\<close>

definition profile_by_id :: "backend \<Rightarrow> uuid \<Rightarrow> profile_ref option" where
  "profile_by_id db uid = map_option profile_ref_of (find (\<lambda>p. id_profile p = uid) (profiles db))"

datatype json =
    Error_json string
  | Message_json string
  | Task_json task "profile_ref option"
  | Task_detail_json task "profile_ref option" "(comment \<times> profile_ref option) list"
      "attachment list" "(task_share \<times> profile_ref option) list"
  | Share_json string task_share "profile_ref option"
  | Users_json "profile_ref list"

text \<open>\<open>NextResponse.json(body, { status })\<close>\<close>

datatype response = Response json nat

fun http_status :: "response \<Rightarrow> nat" where
  "http_status (Response j n) = n"

fun json_of :: "response \<Rightarrow> json" where
  "json_of (Response j n) = j"

section \<open>The queries the handlers send\<close>

text \<open>
  \<open>from("tasks").select(...).eq("id", taskId).single()\<close> under the session of \<open>uid\<close>: the
  row-level policy filters first.
\<close>

definition select_task :: "backend \<Rightarrow> uuid \<Rightarrow> uuid \<Rightarrow> task option \<times> backend" where
  "select_task db uid taskId =
     (single (filter (\<lambda>t. id_task t = taskId) (filter (policy_tasks_select db uid) (tasks db))),
      log_query SELECT ''tasks'' db)"

text \<open>The embedded \<open>task_shares(...)\<close> of a selected task row.\<close>

definition embedded_shares :: "backend \<Rightarrow> uuid \<Rightarrow> uuid \<Rightarrow> task_share list" where
  "embedded_shares db uid taskId =
     filter (\<lambda>s. task_id s = taskId) (filter (policy_task_shares_select uid) (task_shares db))"

definition embedded_comments :: "backend \<Rightarrow> uuid \<Rightarrow> uuid \<Rightarrow> comment list" where
  "embedded_comments db uid taskId =
     filter (\<lambda>c. comment_task_id c = taskId)
       (filter (\<lambda>c. policy_on_accessible_task db uid (comment_task_id c)) (comments db))"

definition embedded_attachments :: "backend \<Rightarrow> uuid \<Rightarrow> uuid \<Rightarrow> attachment list" where
  "embedded_attachments db uid taskId =
     filter (\<lambda>a. attachment_task_id a = taskId)
       (filter (\<lambda>a. policy_on_accessible_task db uid (attachment_task_id a)) (attachments db))"

text \<open>
  The select list of the fetch-one query: the row, the owner's profile, the comments each
  with its author, the attachments, the shares each with the recipient's profile.
\<close>

definition task_detail :: "backend \<Rightarrow> uuid \<Rightarrow> task \<Rightarrow> json" where
  "task_detail db uid t =
     Task_detail_json t (profile_by_id db (user_id t))
       (map (\<lambda>c. (c, profile_by_id db (comment_user_id c))) (embedded_comments db uid (id_task t)))
       (embedded_attachments db uid (id_task t))
       (map (\<lambda>s. (s, profile_by_id db (shared_with_user_id s))) (embedded_shares db uid (id_task t)))"

subsection \<open>Writing the tasks table\<close>

text \<open>
  The six fields a request body or a payload for the tasks table can carry;
  \<open>JUndefined\<close> is an absent key.
\<close>

record task_body =
  b_title :: jsval
  b_description :: jsval
  b_status :: jsval
  b_priority :: jsval
  b_due_date :: jsval
  b_category :: jsval

record task_insert = task_body +
  ins_user_id :: uuid

text \<open>A JSON value as text: a string is its content, anything else its text form.\<close>

definition text_of :: "engines \<Rightarrow> jsval \<Rightarrow> string" where
  "text_of E v = (case v of JString s \<Rightarrow> s | _ \<Rightarrow> json_text E v)"

text \<open>
  A present value as the request to the backend carries it: \<open>JSON.stringify\<close> writes a
  number that is not finite as \<open>null\<close>.
\<close>

definition sent_null :: "jsval \<Rightarrow> bool" where
  "sent_null v = (v = JNull \<or> v = JInfinity)"

text \<open>The value of a nullable TEXT column from a JSON value that is present.\<close>

definition text_in :: "engines \<Rightarrow> jsval \<Rightarrow> string option" where
  "text_in E v = (if sent_null v then None else Some (text_of E v))"

text \<open>A value of type TEXT cannot hold the character U+0000: the backend refuses it.\<close>

definition text_refused :: "engines \<Rightarrow> jsval \<Rightarrow> bool" where
  "text_refused E v = (v \<noteq> JUndefined \<and> \<not> sent_null v \<and> CHR 0x00 \<in> set (text_of E v))"

definition payload_refused :: "engines \<Rightarrow> 'a task_body_scheme \<Rightarrow> bool" where
  "payload_refused E upd =
     (text_refused E (b_title upd) \<or> text_refused E (b_description upd) \<or>
      text_refused E (b_status upd) \<or> text_refused E (b_priority upd) \<or>
      text_refused E (b_category upd))"

text \<open>The value of a TIMESTAMPTZ column from a JSON value that is present.\<close>

definition timestamptz_col :: "engines \<Rightarrow> jsval \<Rightarrow> pg_error + string option" where
  "timestamptz_col E v =
     (if sent_null v then Inr None
      else (case timestamptz_in E (text_of E v) of
              None \<Rightarrow> Inl Invalid_datetime
            | Some ts \<Rightarrow> Inr (Some ts)))"

text \<open>
  \<open>CHECK (status IN ('todo', 'in_progress', 'completed'))\<close> and the one on \<open>priority\<close>;
  a check constraint is satisfied by NULL.
\<close>

definition status_check :: "string option \<Rightarrow> bool" where
  "status_check s =
     (case s of None \<Rightarrow> True | Some x \<Rightarrow> x = ''todo'' \<or> x = ''in_progress'' \<or> x = ''completed'')"

definition priority_check :: "string option \<Rightarrow> bool" where
  "priority_check s =
     (case s of None \<Rightarrow> True
      | Some x \<Rightarrow> x = ''low'' \<or> x = ''medium'' \<or> x = ''high'' \<or> x = ''urgent'')"

text \<open>
  One row under \<open>UPDATE tasks SET ...\<close> with the columns of the payload: every text must
  be a value of type TEXT, the title is NOT NULL, the due date must be a timestamp, the
  check constraints hold of the new row, and the trigger \<open>update_tasks_updated_at\<close> stamps
  it.
\<close>

definition set_columns :: "engines \<Rightarrow> task_body \<Rightarrow> string option \<Rightarrow> task \<Rightarrow> task" where
  "set_columns E upd due t =
     t\<lparr>title := (if b_title upd = JUndefined then title t else text_of E (b_title upd)),
       description := (if b_description upd = JUndefined then description t
                       else text_in E (b_description upd)),
       status := (if b_status upd = JUndefined then status t else text_in E (b_status upd)),
       priority := (if b_priority upd = JUndefined then priority t else text_in E (b_priority upd)),
       category := (if b_category upd = JUndefined then category t else text_in E (b_category upd)),
       due_date := due,
       updated_at := now E\<rparr>"

definition update_row :: "engines \<Rightarrow> task_body \<Rightarrow> task \<Rightarrow> pg_error + task" where
  "update_row E upd t =
     (if payload_refused E upd then Inl Untranslatable_character
      else if sent_null (b_title upd) then Inl Not_null_violation
      else
        (case (if b_due_date upd = JUndefined then Inr (due_date t)
               else timestamptz_col E (b_due_date upd)) of
           Inl e \<Rightarrow> Inl e
         | Inr due \<Rightarrow>
             (let t' = set_columns E upd due t
              in if status_check (status t') \<and> priority_check (priority t') then Inr t'
                 else Inl Check_violation)))"

text \<open>
  The statement over the table: the rows \<open>target\<close> selects are replaced, the first error
  aborts it. The result is the new table and the rows that were updated.
\<close>

fun update_rows :: "(task \<Rightarrow> bool) \<Rightarrow> (task \<Rightarrow> pg_error + task) \<Rightarrow> task list
    \<Rightarrow> pg_error + task list \<times> task list" where
  "update_rows target f [] = Inr ([], [])"
| "update_rows target f (t # ts) =
     (if target t then
        (case f t of
           Inl e \<Rightarrow> Inl e
         | Inr t' \<Rightarrow>
             (case update_rows target f ts of
                Inl e \<Rightarrow> Inl e
              | Inr (tbl, updated) \<Rightarrow> Inr (t' # tbl, t' # updated)))
      else
        (case update_rows target f ts of
           Inl e \<Rightarrow> Inl e
         | Inr (tbl, updated) \<Rightarrow> Inr (t # tbl, updated)))"

definition no_columns :: "task_body \<Rightarrow> bool" where
  "no_columns upd =
     (b_title upd = JUndefined \<and> b_description upd = JUndefined \<and> b_status upd = JUndefined \<and>
      b_priority upd = JUndefined \<and> b_due_date upd = JUndefined \<and> b_category upd = JUndefined)"

text \<open>
  \<open>from("tasks").update(updateData).eq("id", taskId).select(row, profile).single()\<close>.
  A payload without columns updates nothing and returns no row (the REST layer of the
  backend sends no UPDATE for it).
\<close>

definition update_task :: "engines \<Rightarrow> backend \<Rightarrow> uuid \<Rightarrow> uuid \<Rightarrow> task_body
    \<Rightarrow> (pg_error + task \<times> profile_ref option) \<times> backend" where
  "update_task E db uid taskId upd =
     (let db1 = log_query UPDATE ''tasks'' db in
      if no_columns upd then (Inl Not_a_single_row, db1)
      else
        (case update_rows
                (\<lambda>t. id_task t = taskId \<and> policy_tasks_write uid t \<and> policy_tasks_select db uid t)
                (update_row E upd) (tasks db) of
           Inl e \<Rightarrow> (Inl e, db1)
         | Inr (tbl, updated) \<Rightarrow>
             (let db2 = db1\<lparr>tasks := tbl\<rparr> in
              case single updated of
                None \<Rightarrow> (Inl Not_a_single_row, db2)
              | Some r \<Rightarrow> (Inr (r, profile_by_id db2 (user_id r)), db2))))"

text \<open>
  \<open>from("tasks").delete().eq("id", taskId)\<close>; the foreign keys of the shares, comments and
  attachments are ON DELETE CASCADE.
\<close>

definition delete_task :: "backend \<Rightarrow> uuid \<Rightarrow> uuid \<Rightarrow> backend" where
  "delete_task db uid taskId =
     (let db1 = log_query DELETE ''tasks'' db;
          target = (\<lambda>t. id_task t = taskId \<and> policy_tasks_write uid t \<and> policy_tasks_select db uid t)
      in if filter target (tasks db) = [] then db1
         else db1\<lparr>
           tasks := filter (\<lambda>t. \<not> target t) (tasks db),
           task_shares := filter (\<lambda>s. task_id s \<noteq> taskId) (task_shares db),
           comments := filter (\<lambda>c. comment_task_id c \<noteq> taskId) (comments db),
           attachments := filter (\<lambda>a. attachment_task_id a \<noteq> taskId) (attachments db)\<rparr>)"

text \<open>
  The row \<open>INSERT INTO tasks\<close> builds from a payload: every text must be a value of
  type TEXT, an absent key takes the column default, \<open>id\<close> and the timestamps are
  generated.
\<close>

definition insert_row :: "engines \<Rightarrow> task_insert \<Rightarrow> pg_error + task" where
  "insert_row E td =
     (if payload_refused E td then Inl Untranslatable_character
      else if b_title td = JUndefined \<or> sent_null (b_title td) then Inl Not_null_violation
      else
        (case (if b_due_date td = JUndefined then Inr None else timestamptz_col E (b_due_date td)) of
           Inl e \<Rightarrow> Inl e
         | Inr due \<Rightarrow>
             (let t' = \<lparr>
                id_task = gen_random_uuid E,
                user_id = ins_user_id td,
                title = text_of E (b_title td),
                description = (if b_description td = JUndefined then None
                               else text_in E (b_description td)),
                status = (if b_status td = JUndefined then Some ''todo'' else text_in E (b_status td)),
                priority = (if b_priority td = JUndefined then Some ''medium''
                            else text_in E (b_priority td)),
                category = (if b_category td = JUndefined then None else text_in E (b_category td)),
                due_date = due,
                completed_at = None,
                created_at = now E,
                updated_at = now E\<rparr>
              in if status_check (status t') \<and> priority_check (priority t') then Inr t'
                 else Inl Check_violation)))"

text \<open>
  \<open>from("tasks").insert(taskData).select(row, profile).single()\<close>: the insert policy
  (the row belongs to the caller), the primary key and the foreign key to the profiles.
\<close>

definition insert_task :: "engines \<Rightarrow> backend \<Rightarrow> uuid \<Rightarrow> task_insert
    \<Rightarrow> (pg_error + task \<times> profile_ref option) \<times> backend" where
  "insert_task E db uid td =
     (let db1 = log_query INSERT ''tasks'' db in
      case insert_row E td of
        Inl e \<Rightarrow> (Inl e, db1)
      | Inr r \<Rightarrow>
          if \<not> policy_tasks_write uid r then (Inl Policy_violation, db1)
          else if id_task r \<in> set (map id_task (tasks db)) then (Inl Unique_violation, db1)
          else if user_id r \<notin> set (map id_profile (profiles db)) then (Inl Foreign_key_violation, db1)
          else (let db2 = db1\<lparr>tasks := tasks db @ [r]\<rparr>
                in (Inr (r, profile_by_id db2 (user_id r)), db2)))"

subsection \<open>Writing the shares table\<close>

text \<open>
  \<open>from("task_shares").insert({task_id, shared_with_user_id, shared_by_user_id})
  .select(row, profile).single()\<close>: the insert policy, the primary key, the foreign keys and
  \<open>UNIQUE(task_id, shared_with_user_id)\<close>.
\<close>

definition insert_share :: "engines \<Rightarrow> backend \<Rightarrow> uuid \<Rightarrow> uuid \<Rightarrow> uuid
    \<Rightarrow> (pg_error + task_share \<times> profile_ref option) \<times> backend" where
  "insert_share E db uid taskId target =
     (let db1 = log_query INSERT ''task_shares'' db;
          r = \<lparr>id_share = gen_random_uuid E, task_id = taskId, shared_with_user_id = target,
               shared_by_user_id = uid, permission = Some ''view'', share_created_at = now E\<rparr>
      in if \<not> policy_task_shares_insert db uid r then (Inl Policy_violation, db1)
         else if id_share r \<in> set (map id_share (task_shares db)) then (Inl Unique_violation, db1)
         else if list_ex (\<lambda>s. task_id s = taskId \<and> shared_with_user_id s = target) (task_shares db)
           then (Inl Unique_violation, db1)
         else if taskId \<notin> set (map id_task (tasks db)) \<or> target \<notin> set (map id_profile (profiles db))
                 \<or> uid \<notin> set (map id_profile (profiles db))
           then (Inl Foreign_key_violation, db1)
         else (let db2 = db1\<lparr>task_shares := task_shares db @ [r]\<rparr>
               in (Inr (r, profile_by_id db2 target), db2)))"

section \<open>The task handlers (src/app/api/tasks/[id]/route.ts, src/app/api/tasks/route.ts)\<close>

text \<open>
  Every handler takes the backend, the result of \<open>supabase.auth.getUser()\<close> (\<open>None\<close> for an
  error or no user) and its request, and returns the response with the backend it leaves.
  A request body is \<open>None\<close> when \<open>request.json()\<close> or the destructuring of its result
  throws. The \<open>catch\<close> of each handler answers 500.
\<close>

definition unauthorized :: response where
  "unauthorized = Response (Error_json ''Unauthorized'') 401"

definition internal_server_error :: response where
  "internal_server_error = Response (Error_json ''Internal server error'') 500"

definition canAccessTask :: "backend \<Rightarrow> uuid \<Rightarrow> uuid \<Rightarrow> bool \<times> backend" where
  "canAccessTask db taskId userId =
     (case select_task db userId taskId of
        (None, db1) \<Rightarrow> (False, db1)
      | (Some t, db1) \<Rightarrow>
          (let isOwner = (user_id t = userId);
               isShared = list_ex (\<lambda>share. shared_with_user_id share = userId)
                            (embedded_shares db userId (id_task t))
           in (isOwner \<or> isShared, db1)))"

definition GET_task :: "backend \<Rightarrow> uuid option \<Rightarrow> uuid \<Rightarrow> response \<times> backend" where
  "GET_task db user taskId =
     (case user of
        None \<Rightarrow> (unauthorized, db)
      | Some uid \<Rightarrow>
          (case canAccessTask db taskId uid of
             (hasAccess, db1) \<Rightarrow>
               if \<not> hasAccess then (Response (Error_json ''Forbidden'') 403, db1)
               else
                 (case select_task db1 uid taskId of
                    (None, db2) \<Rightarrow> (Response (Error_json ''Task not found'') 404, db2)
                  | (Some t, db2) \<Rightarrow> (Response (task_detail db uid t) 200, db2))))"

text \<open>
  The payload of the update: a field is set when the body has it, the title trimmed, the
  description trimmed and \<open>null\<close> when that leaves nothing.
\<close>

definition updateData_of :: "engines \<Rightarrow> task_body \<Rightarrow> exn + task_body" where
  "updateData_of E body =
     (case (if b_title body \<noteq> JUndefined
            then (case js_trim E (b_title body) of Inl e \<Rightarrow> Inl e | Inr s \<Rightarrow> Inr (JString s))
            else Inr JUndefined) of
        Inl e \<Rightarrow> Inl e
      | Inr t \<Rightarrow>
          (case (if b_description body \<noteq> JUndefined then trim_or_null E (b_description body)
                 else Inr JUndefined) of
             Inl e \<Rightarrow> Inl e
           | Inr d \<Rightarrow>
               Inr \<lparr>b_title = t, b_description = d, b_status = b_status body,
                    b_priority = b_priority body, b_due_date = b_due_date body,
                    b_category = b_category body\<rparr>))"

definition PATCH_task :: "engines \<Rightarrow> backend \<Rightarrow> uuid option \<Rightarrow> uuid \<Rightarrow> task_body option
    \<Rightarrow> response \<times> backend" where
  "PATCH_task E db user taskId body =
     (case user of
        None \<Rightarrow> (unauthorized, db)
      | Some uid \<Rightarrow>
          (case select_task db uid taskId of
             (task, db1) \<Rightarrow>
               if task = None \<or> map_option user_id task \<noteq> Some uid then
                 (Response (Error_json ''Forbidden - Only owner can update task'') 403, db1)
               else
                 (case body of
                    None \<Rightarrow> (internal_server_error, db1)
                  | Some b \<Rightarrow>
                      (case updateData_of E b of
                         Inl e \<Rightarrow> (internal_server_error, db1)
                       | Inr updateData \<Rightarrow>
                           if truthy (b_title updateData) \<and> b_title updateData = JString [] then
                             (Response (Error_json ''Title cannot be empty'') 400, db1)
                           else
                             (case update_task E db1 uid taskId updateData of
                                (Inl e, db2) \<Rightarrow>
                                  (Response (Error_json ''Failed to update task'') 500, db2)
                              | (Inr (updatedTask, p), db2) \<Rightarrow>
                                  (Response (Task_json updatedTask p) 200, db2))))))"

definition DELETE_task :: "backend \<Rightarrow> uuid option \<Rightarrow> uuid \<Rightarrow> response \<times> backend" where
  "DELETE_task db user taskId =
     (case user of
        None \<Rightarrow> (unauthorized, db)
      | Some uid \<Rightarrow>
          (case select_task db uid taskId of
             (task, db1) \<Rightarrow>
               if task = None \<or> map_option user_id task \<noteq> Some uid then
                 (Response (Error_json ''Forbidden - Only owner can delete task'') 403, db1)
               else (Response (Message_json ''Task deleted successfully'') 200,
                     delete_task db1 uid taskId)))"

text \<open>The row the create handler prepares.\<close>

definition taskData_of :: "engines \<Rightarrow> uuid \<Rightarrow> task_body \<Rightarrow> exn + task_insert" where
  "taskData_of E uid body =
     (case js_trim E (b_title body) of
        Inl e \<Rightarrow> Inl e
      | Inr t \<Rightarrow>
          (case trim_or_null E (b_description body) of
             Inl e \<Rightarrow> Inl e
           | Inr d \<Rightarrow>
               Inr \<lparr>b_title = JString t, b_description = d,
                    b_status = js_or (b_status body) (JString ''todo''),
                    b_priority = js_or (b_priority body) (JString ''medium''),
                    b_due_date = js_or (b_due_date body) JNull,
                    b_category = js_or (b_category body) JNull,
                    ins_user_id = uid\<rparr>))"

definition POST_tasks :: "engines \<Rightarrow> backend \<Rightarrow> uuid option \<Rightarrow> task_body option
    \<Rightarrow> response \<times> backend" where
  "POST_tasks E db user body =
     (case user of
        None \<Rightarrow> (unauthorized, db)
      | Some uid \<Rightarrow>
          (case body of
             None \<Rightarrow> (internal_server_error, db)
           | Some b \<Rightarrow>
               if \<not> truthy (b_title b) then (Response (Error_json ''Title is required'') 400, db)
               else
                 (case js_trim E (b_title b) of
                    Inl e \<Rightarrow> (internal_server_error, db)
                  | Inr s \<Rightarrow>
                      if s = [] then (Response (Error_json ''Title is required'') 400, db)
                      else
                        (case taskData_of E uid b of
                           Inl e \<Rightarrow> (internal_server_error, db)
                         | Inr taskData \<Rightarrow>
                             (case insert_task E db uid taskData of
                                (Inl e, db1) \<Rightarrow>
                                  (Response (Error_json ''Failed to create task'') 500, db1)
                              | (Inr (newTask, p), db1) \<Rightarrow>
                                  (Response (Task_json newTask p) 201, db1))))))"

section \<open>The share handler (src/app/api/tasks/[id]/share/route.ts)\<close>

record share_body =
  userEmail :: jsval

definition POST_share :: "engines \<Rightarrow> backend \<Rightarrow> uuid option \<Rightarrow> uuid \<Rightarrow> share_body option
    \<Rightarrow> response \<times> backend" where
  "POST_share E db user taskId body =
     (case user of
        None \<Rightarrow> (unauthorized, db)
      | Some uid \<Rightarrow>
          (case body of
             None \<Rightarrow> (internal_server_error, db)
           | Some b \<Rightarrow>
               if \<not> truthy (userEmail b) then
                 (Response (Error_json ''User email is required'') 400, db)
               else
                 (case select_task db uid taskId of
                    (None, db1) \<Rightarrow> (Response (Error_json ''Task not found'') 404, db1)
                  | (Some task, db1) \<Rightarrow>
                      if user_id task \<noteq> uid then
                        (Response (Error_json ''Only task owner can share'') 403, db1)
                      else
                        (let db2 = log_query SELECT ''profiles'' db1 in
                         case single (filter (\<lambda>p. email p = text_of E (userEmail b)) (profiles db)) of
                           None \<Rightarrow> (Response (Error_json ''User not found with that email'') 404, db2)
                         | Some targetUser \<Rightarrow>
                             if id_profile targetUser = uid then
                               (Response (Error_json ''Cannot share task with yourself'') 400, db2)
                             else
                               (let db3 = log_query SELECT ''task_shares'' db2 in
                                case single (filter (\<lambda>s. shared_with_user_id s = id_profile targetUser)
                                               (embedded_shares db uid taskId)) of
                                  Some existingShare \<Rightarrow>
                                    (Response (Error_json ''Task already shared with this user'') 400, db3)
                                | None \<Rightarrow>
                                    (case insert_share E db3 uid taskId (id_profile targetUser) of
                                       (Inl e, db4) \<Rightarrow>
                                         (Response (Error_json ''Failed to share task'') 500, db4)
                                     | (Inr (newShare, p), db4) \<Rightarrow>
                                         (Response (Share_json ''Task shared successfully'' newShare p) 201,
                                          db4)))))))"

section \<open>The user search (src/app/api/users/search/route.ts)\<close>

text \<open>
  \<open>query\<close> is \<open>searchParams.get("q")\<close>, \<open>None\<close> for \<open>null\<close>. The pattern of the search is the
  query between two \<open>%\<close>.
\<close>

definition search_users :: "engines \<Rightarrow> backend \<Rightarrow> uuid \<Rightarrow> string
    \<Rightarrow> (pg_error + profile_ref list) \<times> backend" where
  "search_users E db uid query =
     ((case ilike E (''%'' @ query @ ''%'') of
         None \<Rightarrow> Inl Query_failed
       | Some matches \<Rightarrow>
           Inr (map profile_ref_of
                  (take 10 (filter (\<lambda>p. matches (email p) \<and> id_profile p \<noteq> uid) (profiles db))))),
      log_query SELECT ''profiles'' db)"

definition GET_users_search :: "engines \<Rightarrow> backend \<Rightarrow> uuid option \<Rightarrow> string option
    \<Rightarrow> response \<times> backend" where
  "GET_users_search E db user query =
     (case user of
        None \<Rightarrow> (unauthorized, db)
      | Some uid \<Rightarrow>
          (case query of
             None \<Rightarrow> (Response (Users_json []) 200, db)
           | Some q \<Rightarrow>
               if q = [] \<or> trim E q = [] then (Response (Users_json []) 200, db)
               else (case search_users E db uid q of
                       (Inl e, db1) \<Rightarrow> (Response (Error_json ''Failed to search users'') 500, db1)
                     | (Inr users, db1) \<Rightarrow> (Response (Users_json users) 200, db1))))"

section \<open>A sample backend\<close>

text \<open>
  Concrete engines and a small database, for evaluating the handlers. The sample requests
  are ASCII strings and \<open>null\<close> only: \<open>trim\<close> strips the ASCII white space and line
  terminators, the timestamp cast knows one date, \<open>ILIKE\<close> is containment of the pattern's
  text without its outer \<open>%\<close>, ASCII letters compared in lower case, and the text form
  of the other JSON values is a placeholder.
\<close>

definition isWhiteSpace :: "char \<Rightarrow> bool" where
  "isWhiteSpace c =
     (c = CHR 0x09 \<or> c = CHR 0x0A \<or> c = CHR 0x0B \<or> c = CHR 0x0C \<or> c = CHR 0x0D \<or> c = CHR 0x20)"

definition trim_ascii :: "string \<Rightarrow> string" where
  "trim_ascii s = rev (dropWhile isWhiteSpace (rev (dropWhile isWhiteSpace s)))"

definition lower_ascii :: "char \<Rightarrow> char" where
  "lower_ascii c =
     (if 65 \<le> (of_char c :: nat) \<and> (of_char c :: nat) \<le> 90 then char_of ((of_char c :: nat) + 32) else c)"

fun contains :: "string \<Rightarrow> string \<Rightarrow> bool" where
  "contains [] p = (p = [])"
| "contains (c # cs) p = (startsWith (c # cs) p \<or> contains cs p)"

definition sample_env :: engines where
  "sample_env = \<lparr>
     trim = trim_ascii,
     timestamptz_in = (\<lambda>s. if s = ''2030-01-01'' then Some ''2030-01-01T00:00:00+00:00'' else None),
     json_text = (\<lambda>v. ''json''),
     ilike = (\<lambda>pat. Some (\<lambda>v. contains (map lower_ascii v) (map lower_ascii (butlast (tl pat))))),
     now = ''2025-06-01T12:00:00+00:00'',
     gen_random_uuid = ''new-id''\<rparr>"

definition alice :: profile where
  "alice = \<lparr>id_profile = ''u-alice'', full_name = Some ''Alice'', email = ''alice@example.com'',
            avatar_url = None\<rparr>"

definition bob :: profile where
  "bob = \<lparr>id_profile = ''u-bob'', full_name = Some ''Bob'', email = ''bob@example.com'',
          avatar_url = None\<rparr>"

definition carol :: profile where
  "carol = \<lparr>id_profile = ''u-carol'', full_name = None, email = ''carol smith@example.com'',
            avatar_url = None\<rparr>"

definition milk :: task where
  "milk = \<lparr>id_task = ''t-milk'', user_id = ''u-alice'', title = ''Buy milk'',
           description = Some ''two litres'', status = Some ''todo'', priority = Some ''low'',
           category = Some ''home'', due_date = Some ''2024-01-01T00:00:00+00:00'',
           completed_at = None, created_at = ''2023-12-01T00:00:00+00:00'',
           updated_at = ''2023-12-01T00:00:00+00:00''\<rparr>"

definition milk_share :: task_share where
  "milk_share = \<lparr>id_share = ''s-1'', task_id = ''t-milk'', shared_with_user_id = ''u-bob'',
                 shared_by_user_id = ''u-alice'', permission = Some ''edit'',
                 share_created_at = ''2023-12-02T00:00:00+00:00''\<rparr>"

definition milk_comment :: comment where
  "milk_comment = \<lparr>id_comment = ''c-1'', comment_task_id = ''t-milk'', comment_user_id = ''u-bob'',
                   content = ''Semi-skimmed please''\<rparr>"

definition sample_db :: backend where
  "sample_db = \<lparr>profiles = [alice, bob, carol], tasks = [milk], task_shares = [milk_share],
                comments = [milk_comment], attachments = [], issued = []\<rparr>"

definition no_fields :: task_body where
  "no_fields = \<lparr>b_title = JUndefined, b_description = JUndefined, b_status = JUndefined,
                b_priority = JUndefined, b_due_date = JUndefined, b_category = JUndefined\<rparr>"

section \<open>Properties of the gatekeeper\<close>

lemma startsWith_prefix: "startsWith s p = prefix p s"
  by (auto simp: startsWith_def prefix_def) (metis append_eq_conv_conj)

lemma isPublicRoute_prefix: "isPublicRoute path = auth_page_prefix path"
  by (simp add: isPublicRoute_def publicRoutes_def auth_page_prefix_def startsWith_prefix)

lemma searchParams_get_set: "searchParams_get k (searchParams_set k v ps) = Some v"
  by (induction ps) (auto simp: searchParams_get_def)

text \<open>
  C7, as the code has it. On every request it is run on (its matcher keeps it off the
  static assets) the gatekeeper follows the specification's three cases, but with two
  notions of auth page: for a request without a session an auth page is any path that
  starts with /login or /signup, for a request with a session it is /login or /signup
  exactly. The redirect of a request without a session goes to /login and carries the
  original path as the parameter redirectedFrom.
\<close>

theorem middleware_decision_by_session:
  "middleware None nextUrl = gatekeeper_spec auth_page_prefix None nextUrl \<and>
   middleware (Some u) nextUrl = gatekeeper_spec auth_page_exact (Some u) nextUrl \<and>
   (middleware user nextUrl = Redirect target \<and> user = None \<longrightarrow>
      pathname target = ''/login'' \<and>
      searchParams_get ''redirectedFrom'' (searchParams target) = Some (pathname nextUrl))"
  by (auto simp: middleware_def gatekeeper_spec_def isPublicRoute_prefix auth_page_exact_def
      searchParams_get_set Let_def split: if_splits)

theorem middleware_decision_by_session_witness:
  "middleware None \<lparr>pathname = ''/tasks'', searchParams = [(''tab'', ''all'')]\<rparr> =
     Redirect \<lparr>pathname = ''/login'',
               searchParams = [(''tab'', ''all''), (''redirectedFrom'', ''/tasks'')]\<rparr> \<and>
   middleware (Some ''u-alice'') \<lparr>pathname = ''/signup'', searchParams = []\<rparr> =
     Redirect \<lparr>pathname = ''/'', searchParams = []\<rparr> \<and>
   middleware (Some ''u-alice'') \<lparr>pathname = ''/tasks'', searchParams = []\<rparr> = Next_response"
  using
    middleware_decision_by_session [of "\<lparr>pathname = ''/tasks'', searchParams = [(''tab'', ''all'')]\<rparr>"
      "''u-alice''" None
      "\<lparr>pathname = ''/login'', searchParams = [(''tab'', ''all''), (''redirectedFrom'', ''/tasks'')]\<rparr>"]
    middleware_decision_by_session [of "\<lparr>pathname = ''/signup'', searchParams = []\<rparr>" "''u-alice''"]
    middleware_decision_by_session [of "\<lparr>pathname = ''/tasks'', searchParams = []\<rparr>" "''u-alice''"]
  by (simp add: gatekeeper_spec_def auth_page_prefix_def auth_page_exact_def)

text \<open>
  C7, as the claim states it, fails on the path /login/reset under either reading of
  "auth page". Read as the page itself, the claim redirects the request without a session
  to the login page, and the code lets it pass. Read as any path under the page, the claim
  redirects the request with a session to the default page, and the code lets it pass.
\<close>

theorem gatekeeper_single_auth_page_counterexample:
  "middleware None \<lparr>pathname = ''/login/reset'', searchParams = []\<rparr> \<noteq>
     gatekeeper_spec auth_page_exact None \<lparr>pathname = ''/login/reset'', searchParams = []\<rparr> \<and>
   middleware (Some ''u-alice'') \<lparr>pathname = ''/login/reset'', searchParams = []\<rparr> \<noteq>
     gatekeeper_spec auth_page_prefix (Some ''u-alice'')
       \<lparr>pathname = ''/login/reset'', searchParams = []\<rparr>"
  by (simp add: middleware_def gatekeeper_spec_def isPublicRoute_def publicRoutes_def startsWith_def
      auth_page_exact_def auth_page_prefix_def)

text \<open>
  C10. A request with a session whose path strictly extends /login or /signup passes
  through: the path counts as a public route, because that test is by prefix, and it is
  neither /login nor /signup, which the redirect of a request with a session asks for.
\<close>

theorem middleware_passes_auth_page_extension:
  assumes "strict_prefix ''/login'' (pathname nextUrl) \<or> strict_prefix ''/signup'' (pathname nextUrl)"
  shows "middleware (Some u) nextUrl = Next_response \<and>
         isPublicRoute (pathname nextUrl) \<and>
         pathname nextUrl \<noteq> ''/login'' \<and> pathname nextUrl \<noteq> ''/signup''"
  using assms
  by (auto simp: middleware_def isPublicRoute_prefix auth_page_prefix_def strict_prefix_def)

theorem middleware_passes_auth_page_extension_witness:
  "strict_prefix ''/login'' ''/login/anything'' \<and>
   middleware (Some ''u-alice'') \<lparr>pathname = ''/login/anything'', searchParams = []\<rparr> = Next_response"
  using middleware_passes_auth_page_extension
    [of "\<lparr>pathname = ''/login/anything'', searchParams = []\<rparr>" "''u-alice''"]
  by (simp add: strict_prefix_def)

section \<open>Properties of the overdue classification\<close>



section \<open>Properties of the backend queries\<close>

lemma single_Some_iff: "single xs = Some x \<longleftrightarrow> xs = [x]"
  by (auto simp: single_def split: list.splits)

lemma single_None_iff: "single xs = None \<longleftrightarrow> (\<forall>x. xs \<noteq> [x])"
  by (auto simp: single_def split: list.splits)

lemma log_query_tables [simp]:
  "profiles (log_query v tbl db) = profiles db"
  "tasks (log_query v tbl db) = tasks db"
  "task_shares (log_query v tbl db) = task_shares db"
  "comments (log_query v tbl db) = comments db"
  "attachments (log_query v tbl db) = attachments db"
  "issued (log_query v tbl db) = issued db @ [(v, tbl)]"
  by (simp_all add: log_query_def)

lemma text_in_simps [simp]:
  "text_in E JNull = None" "text_in E (JString s) = Some s"
  by (simp_all add: text_in_def text_of_def sent_null_def)

lemma text_of_JString [simp]: "text_of E (JString s) = s"
  by (simp add: text_of_def)

lemma timestamptz_col_simps:
  "timestamptz_col E JNull = Inr None"
  "timestamptz_col E (JString s) =
     (case timestamptz_in E s of None \<Rightarrow> Inl Invalid_datetime | Some ts \<Rightarrow> Inr (Some ts))"
  by (simp_all add: timestamptz_col_def text_of_def sent_null_def)

lemma filter_key_unique:
  "distinct (map f xs) \<Longrightarrow> x \<in> set xs \<Longrightarrow> P x \<Longrightarrow> filter (\<lambda>y. P y \<and> f y = f x) xs = [x]"
proof (induction xs)
  case Nil
  then show ?case by simp
next
  case (Cons a xs)
  show ?case
  proof (cases "a = x")
    case True
    have "f x \<notin> f ` set xs"
      using Cons.prems(1) True by simp
    then have "\<forall>y\<in>set xs. f y \<noteq> f x"
      by (metis imageI)
    then have "filter (\<lambda>y. P y \<and> f y = f x) xs = []"
      by (simp add: filter_empty_conv)
    with True Cons.prems(3) show ?thesis by simp
  next
    case False
    with Cons.prems have "x \<in> set xs" "f a \<noteq> f x" by auto
    with Cons show ?thesis by simp
  qed
qed

lemma select_task_snd [simp]: "snd (select_task db uid tid) = log_query SELECT ''tasks'' db"
  by (simp add: select_task_def)

lemma select_task_SomeD:
  "fst (select_task db uid tid) = Some t \<Longrightarrow>
     t \<in> set (tasks db) \<and> id_task t = tid \<and> policy_tasks_select db uid t"
proof -
  assume "fst (select_task db uid tid) = Some t"
  then have "filter (\<lambda>t. id_task t = tid) (filter (policy_tasks_select db uid) (tasks db)) = [t]"
    by (simp add: select_task_def single_Some_iff)
  then have "t \<in> set (filter (\<lambda>t. id_task t = tid) (filter (policy_tasks_select db uid) (tasks db)))"
    by simp
  then show ?thesis by simp
qed

lemma select_task_owner:
  assumes "distinct (map id_task (tasks db))" "t \<in> set (tasks db)" "user_id t = uid"
  shows "select_task db uid (id_task t) = (Some t, log_query SELECT ''tasks'' db)"
proof -
  have "policy_tasks_select db uid t" using assms(3) by (simp add: policy_tasks_select_def)
  then have "filter (\<lambda>y. policy_tasks_select db uid y \<and> id_task y = id_task t) (tasks db) = [t]"
    using filter_key_unique [OF assms(1) assms(2)] by blast
  then show ?thesis by (simp add: select_task_def single_def conj_commute)
qed

lemma select_task_log_ignored:
  "fst (select_task (log_query v tbl db) uid tid) = fst (select_task db uid tid)"
  by (simp add: select_task_def policy_tasks_select_def)

lemma select_task_not_owned:
  assumes "\<forall>t\<in>set (tasks db). id_task t = tid \<longrightarrow> user_id t \<noteq> uid"
  shows "fst (select_task db uid tid) = None \<or> map_option user_id (fst (select_task db uid tid)) \<noteq> Some uid"
proof (cases "fst (select_task db uid tid)")
  case None
  then show ?thesis by simp
next
  case (Some t)
  from select_task_SomeD [OF this] assms show ?thesis using Some by auto
qed

lemma PATCH_task_not_owned:
  assumes "\<forall>t\<in>set (tasks db). id_task t = tid \<longrightarrow> user_id t \<noteq> uid"
  shows "PATCH_task E db (Some uid) tid body =
           (Response (Error_json ''Forbidden - Only owner can update task'') 403,
            log_query SELECT ''tasks'' db)"
  using select_task_not_owned [OF assms] select_task_snd [of db uid tid]
  by (cases "select_task db uid tid") (auto simp: PATCH_task_def)

lemma DELETE_task_not_owned:
  assumes "\<forall>t\<in>set (tasks db). id_task t = tid \<longrightarrow> user_id t \<noteq> uid"
  shows "DELETE_task db (Some uid) tid =
           (Response (Error_json ''Forbidden - Only owner can delete task'') 403,
            log_query SELECT ''tasks'' db)"
  using select_task_not_owned [OF assms] select_task_snd [of db uid tid]
  by (cases "select_task db uid tid") (auto simp: DELETE_task_def)

lemma not_owned_of_distinct:
  assumes "distinct (map id_task (tasks db))" "t \<in> set (tasks db)" "user_id t \<noteq> uid"
  shows "\<forall>t'\<in>set (tasks db). id_task t' = id_task t \<longrightarrow> user_id t' \<noteq> uid"
  using assms by (auto simp: distinct_map inj_on_def)

section \<open>Ownership in the update and delete handlers\<close>

lemma PATCH_task_update_needs_owner:
  assumes "(UPDATE, ''tasks'') \<in> set (drop (length (issued db)) (issued (snd (PATCH_task E db user tid body))))"
  shows "\<exists>t\<in>set (tasks db). id_task t = tid \<and> user = Some (user_id t)"
proof (rule ccontr)
  assume neg: "\<not> (\<exists>t\<in>set (tasks db). id_task t = tid \<and> user = Some (user_id t))"
  show False
  proof (cases user)
    case None
    then have "PATCH_task E db user tid body = (unauthorized, db)"
      by (simp add: PATCH_task_def)
    with assms show False by simp
  next
    case (Some uid)
    with neg have "\<forall>t\<in>set (tasks db). id_task t = tid \<longrightarrow> user_id t \<noteq> uid" by auto
    from PATCH_task_not_owned [OF this, of E body] Some assms show False by simp
  qed
qed

lemma DELETE_task_delete_needs_owner:
  assumes "(DELETE, ''tasks'') \<in> set (drop (length (issued db)) (issued (snd (DELETE_task db user tid))))"
  shows "\<exists>t\<in>set (tasks db). id_task t = tid \<and> user = Some (user_id t)"
proof (rule ccontr)
  assume neg: "\<not> (\<exists>t\<in>set (tasks db). id_task t = tid \<and> user = Some (user_id t))"
  show False
  proof (cases user)
    case None
    then have "DELETE_task db user tid = (unauthorized, db)"
      by (simp add: DELETE_task_def)
    with assms show False by simp
  next
    case (Some uid)
    with neg have "\<forall>t\<in>set (tasks db). id_task t = tid \<longrightarrow> user_id t \<noteq> uid" by auto
    from DELETE_task_not_owned [OF this] Some assms show False by simp
  qed
qed

text \<open>
  C1. A caller with a session who is not the owner of a task, a share recipient included,
  gets 403 from the update handler and from the delete handler. The backend is left as it
  was but for the one SELECT on the tasks table that looked the owner up, so the task row
  is unchanged. An UPDATE or DELETE on the tasks table is sent only for a caller who owns
  a row of that id.
\<close>

theorem only_owner_updates_or_deletes:
  assumes "distinct (map id_task (tasks db))" and "t \<in> set (tasks db)" and "user_id t \<noteq> uid"
  shows "PATCH_task E db (Some uid) (id_task t) body =
           (Response (Error_json ''Forbidden - Only owner can update task'') 403,
            log_query SELECT ''tasks'' db) \<and>
         DELETE_task db (Some uid) (id_task t) =
           (Response (Error_json ''Forbidden - Only owner can delete task'') 403,
            log_query SELECT ''tasks'' db) \<and>
         tasks (log_query SELECT ''tasks'' db) = tasks db \<and>
         ((UPDATE, ''tasks'') \<in> set (drop (length (issued db))
              (issued (snd (PATCH_task E db user tid body')))) \<longrightarrow>
            (\<exists>t'\<in>set (tasks db). id_task t' = tid \<and> user = Some (user_id t'))) \<and>
         ((DELETE, ''tasks'') \<in> set (drop (length (issued db))
              (issued (snd (DELETE_task db user tid)))) \<longrightarrow>
            (\<exists>t'\<in>set (tasks db). id_task t' = tid \<and> user = Some (user_id t')))"
  using PATCH_task_not_owned [OF not_owned_of_distinct [OF assms], of E body]
    DELETE_task_not_owned [OF not_owned_of_distinct [OF assms]]
    PATCH_task_update_needs_owner [of db E user tid body']
    DELETE_task_delete_needs_owner [of db user tid]
  by simp

theorem only_owner_updates_or_deletes_witness:
  "distinct (map id_task (tasks sample_db)) \<and> milk \<in> set (tasks sample_db) \<and>
   user_id milk \<noteq> ''u-bob'' \<and>
   list_ex (\<lambda>s. task_id s = id_task milk \<and> shared_with_user_id s = ''u-bob'') (task_shares sample_db) \<and>
   http_status (fst (PATCH_task sample_env sample_db (Some ''u-bob'') ''t-milk''
      (Some (no_fields\<lparr>b_status := JString ''completed''\<rparr>)))) = 403 \<and>
   http_status (fst (DELETE_task sample_db (Some ''u-bob'') ''t-milk'')) = 403 \<and>
   tasks (snd (PATCH_task sample_env sample_db (Some ''u-bob'') ''t-milk''
      (Some (no_fields\<lparr>b_status := JString ''completed''\<rparr>)))) = [milk] \<and>
   tasks (snd (DELETE_task sample_db (Some ''u-bob'') ''t-milk'')) = [milk] \<and>
   (UPDATE, ''tasks'') \<in> set (issued (snd (PATCH_task sample_env sample_db (Some ''u-alice'') ''t-milk''
      (Some (no_fields\<lparr>b_status := JString ''completed''\<rparr>)))))"
proof -
  have h1: "distinct (map id_task (tasks sample_db))" by code_simp
  have h2: "milk \<in> set (tasks sample_db)" by (simp add: sample_db_def)
  have h3: "user_id milk \<noteq> ''u-bob''" by (simp add: milk_def)
  have h4: "list_ex (\<lambda>s. task_id s = id_task milk \<and> shared_with_user_id s = ''u-bob'')
              (task_shares sample_db)" by code_simp
  have h5: "id_task milk = ''t-milk''" by (simp add: milk_def)
  have h6: "tasks sample_db = [milk]" by (simp add: sample_db_def)
  have h7: "(UPDATE, ''tasks'') \<in> set (issued (snd (PATCH_task sample_env sample_db (Some ''u-alice'')
      ''t-milk'' (Some (no_fields\<lparr>b_status := JString ''completed''\<rparr>)))))" by code_simp
  from only_owner_updates_or_deletes [OF h1 h2 h3, of sample_env
      "Some (no_fields\<lparr>b_status := JString ''completed''\<rparr>)"]
  show ?thesis using h1 h2 h3 h4 h5 h6 h7 by simp
qed

section \<open>Properties of the fetch-one handler\<close>

lemma GET_task_no_row:
  assumes "tid \<notin> set (map id_task (tasks db))"
  shows "GET_task db (Some uid) tid =
           (Response (Error_json ''Forbidden'') 403, log_query SELECT ''tasks'' db)"
proof -
  have "filter (\<lambda>t. id_task t = tid) (filter (policy_tasks_select db uid) (tasks db)) = []"
    using assms by (auto simp: filter_empty_conv)
  then show ?thesis
    by (simp add: GET_task_def canAccessTask_def select_task_def single_def)
qed

lemma GET_task_never_not_found: "http_status (fst (GET_task db user tid)) \<noteq> 404"
proof (cases user)
  case None
  then show ?thesis by (simp add: GET_task_def unauthorized_def)
next
  case (Some uid)
  show ?thesis
  proof (cases "fst (select_task db uid tid)")
    case None
    then show ?thesis using Some
      by (cases "select_task db uid tid") (simp add: GET_task_def canAccessTask_def)
  next
    case (Some t)
    then have "fst (select_task (log_query SELECT ''tasks'' db) uid tid) = Some t"
      by (simp add: select_task_log_ignored)
    then show ?thesis using Some \<open>user = Some uid\<close> select_task_snd [of db uid tid]
      by (cases "select_task db uid tid"; cases "select_task (log_query SELECT ''tasks'' db) uid tid")
         (auto simp: GET_task_def canAccessTask_def Let_def)
  qed
qed

lemma select_task_visible:
  assumes "distinct (map id_task (tasks db))" and "t \<in> set (tasks db)"
    and "policy_tasks_select db uid t"
  shows "select_task db uid (id_task t) = (Some t, log_query SELECT ''tasks'' db)"
proof -
  have "filter (\<lambda>y. policy_tasks_select db uid y \<and> id_task y = id_task t) (tasks db) = [t]"
    using filter_key_unique [OF assms(1) assms(2)] assms(3) by blast
  then show ?thesis by (simp add: select_task_def single_def conj_commute)
qed

lemma select_task_invisible:
  assumes "distinct (map id_task (tasks db))" and "t \<in> set (tasks db)"
    and "\<not> policy_tasks_select db uid t"
  shows "select_task db uid (id_task t) = (None, log_query SELECT ''tasks'' db)"
proof -
  have "\<forall>x\<in>set (tasks db). id_task x = id_task t \<longrightarrow> x = t"
    using assms(1,2) by (auto simp: distinct_map inj_on_def)
  with assms(3) have "filter (\<lambda>y. policy_tasks_select db uid y \<and> id_task y = id_task t) (tasks db) = []"
    by (auto simp: filter_empty_conv)
  then show ?thesis by (simp add: select_task_def single_def conj_commute)
qed

lemma policy_tasks_select_iff:
  "policy_tasks_select db uid t \<longleftrightarrow>
     user_id t = uid \<or> list_ex (\<lambda>s. task_id s = id_task t \<and> shared_with_user_id s = uid) (task_shares db)"
proof -
  have "filter (\<lambda>s. shared_with_user_id s = uid) (filter (policy_task_shares_select uid) (task_shares db)) =
        filter (\<lambda>s. shared_with_user_id s = uid) (task_shares db)"
    by (auto simp: policy_task_shares_select_def intro: filter_cong)
  then have "policy_tasks_select db uid t \<longleftrightarrow>
     uid = user_id t \<or> id_task t \<in> task_id ` {s \<in> set (task_shares db). shared_with_user_id s = uid}"
    by (simp add: policy_tasks_select_def)
  also have "\<dots> \<longleftrightarrow> user_id t = uid \<or>
     list_ex (\<lambda>s. task_id s = id_task t \<and> shared_with_user_id s = uid) (task_shares db)"
    by (auto simp: list_ex_iff image_iff)
  finally show ?thesis .
qed

lemma GET_task_without_access:
  assumes "distinct (map id_task (tasks db))" and "t \<in> set (tasks db)"
    and "user_id t \<noteq> uid"
    and "\<not> list_ex (\<lambda>s. task_id s = id_task t \<and> shared_with_user_id s = uid) (task_shares db)"
  shows "GET_task db (Some uid) (id_task t) =
           (Response (Error_json ''Forbidden'') 403, log_query SELECT ''tasks'' db)"
proof -
  have "\<not> policy_tasks_select db uid t"
    using assms(3,4) by (simp add: policy_tasks_select_iff)
  from select_task_invisible [OF assms(1,2) this] show ?thesis
    by (simp add: GET_task_def canAccessTask_def)
qed

lemma GET_task_with_access:
  assumes "distinct (map id_task (tasks db))" and "t \<in> set (tasks db)"
    and "user_id t = uid \<or>
         list_ex (\<lambda>s. task_id s = id_task t \<and> shared_with_user_id s = uid) (task_shares db)"
  shows "GET_task db (Some uid) (id_task t) =
           (Response (task_detail db uid t) 200,
            log_query SELECT ''tasks'' (log_query SELECT ''tasks'' db))"
proof -
  let ?db1 = "log_query SELECT ''tasks'' db"
  have vis: "policy_tasks_select db uid t"
    using assms(3) by (simp add: policy_tasks_select_iff)
  then have vis1: "policy_tasks_select ?db1 uid t"
    by (simp add: policy_tasks_select_def)
  have s1: "select_task db uid (id_task t) = (Some t, ?db1)"
    by (rule select_task_visible [OF assms(1,2) vis])
  have s2: "select_task ?db1 uid (id_task t) = (Some t, log_query SELECT ''tasks'' ?db1)"
    using select_task_visible [of ?db1 t uid] assms(1,2) vis1 by simp
  have acc: "user_id t = uid \<or>
     list_ex (\<lambda>share. shared_with_user_id share = uid) (embedded_shares db uid (id_task t))"
    using assms(3)
    by (auto simp: embedded_shares_def policy_task_shares_select_def list_ex_iff)
  show ?thesis
    using acc by (auto simp: GET_task_def canAccessTask_def s1 s2 Let_def)
qed

text \<open>
  C2. The claim's not-found result for an id without a task row is not what the handler
  does: the access check comes first and \<open>canAccessTask\<close> returns false when the row is
  absent, so the answer is 403 Forbidden, and the branch that answers 404 is never reached
  (\<open>GET_task_never_not_found\<close>). Here the owner of another task asks for an id that no row
  has. The rest of the claim holds: a caller who is neither owner nor recipient gets 403
  (\<open>GET_task_without_access\<close>), the owner and a recipient get the joined row
  (\<open>GET_task_with_access\<close>).
\<close>

theorem GET_task_absent_row_is_forbidden:
  "''t-gone'' \<notin> set (map id_task (tasks sample_db)) \<and>
   GET_task sample_db (Some ''u-alice'') ''t-gone'' =
     (Response (Error_json ''Forbidden'') 403, sample_db\<lparr>issued := [(SELECT, ''tasks'')]\<rparr>)"
  by code_simp

section \<open>Properties of the update handler\<close>

lemma PATCH_task_never_invalid_input: "http_status (fst (PATCH_task E db user tid body)) \<noteq> 400"
proof -
  have "\<not> (truthy v \<and> v = JString [])" for v by auto
  then show ?thesis
    by (auto simp: PATCH_task_def unauthorized_def internal_server_error_def
        split: option.splits prod.splits sum.splits)
qed

text \<open>
  C3. The claim's rejection of an empty title is not what the handler does: the test
  \<open>updateData.title && updateData.title === ""\<close> asks the title to be truthy and empty at
  once, so the handler never answers 400 (\<open>PATCH_task_never_invalid_input\<close>). Here the
  owner sends the title \<open>""\<close>: the answer is 200 and the stored title is empty.
\<close>

theorem PATCH_task_accepts_empty_title:
  "select_task sample_db ''u-alice'' ''t-milk'' = (Some milk, sample_db\<lparr>issued := [(SELECT, ''tasks'')]\<rparr>) \<and>
   user_id milk = ''u-alice'' \<and>
   PATCH_task sample_env sample_db (Some ''u-alice'') ''t-milk''
      (Some (no_fields\<lparr>b_title := JString []\<rparr>)) =
   (Response (Task_json (milk\<lparr>title := [], updated_at := ''2025-06-01T12:00:00+00:00''\<rparr>)
      (Some (profile_ref_of alice))) 200,
    sample_db\<lparr>tasks := [milk\<lparr>title := [], updated_at := ''2025-06-01T12:00:00+00:00''\<rparr>],
      issued := [(SELECT, ''tasks''), (UPDATE, ''tasks'')]\<rparr>)"
  by code_simp

section \<open>Properties of the create handler\<close>

lemma taskData_of_InrD:
  assumes "taskData_of E uid b = Inr td"
  shows "b_status td = js_or (b_status b) (JString ''todo'') \<and>
         b_priority td = js_or (b_priority b) (JString ''medium'') \<and>
         b_due_date td = js_or (b_due_date b) JNull \<and>
         b_category td = js_or (b_category b) JNull \<and>
         ins_user_id td = uid \<and>
         (\<exists>s. b_title b = JString s \<and> b_title td = JString (trim E s))"
  using assms
  by (cases "b_title b") (auto simp: taskData_of_def split: sum.splits)

lemma insert_row_InrD:
  assumes "insert_row E td = Inr r"
  shows "status r = (if b_status td = JUndefined then Some ''todo'' else text_in E (b_status td)) \<and>
         priority r = (if b_priority td = JUndefined then Some ''medium'' else text_in E (b_priority td)) \<and>
         status_check (status r) \<and> priority_check (priority r) \<and>
         user_id r = ins_user_id td \<and> title r = text_of E (b_title td)"
  using assms
  by (auto simp: insert_row_def Let_def split: if_splits sum.splits)

lemma insert_task_cases:
  "(\<exists>e. insert_task E db uid td = (Inl e, log_query INSERT ''tasks'' db)) \<or>
   (\<exists>r. insert_row E td = Inr r \<and>
        insert_task E db uid td =
          (Inr (r, profile_by_id (log_query INSERT ''tasks'' db\<lparr>tasks := tasks db @ [r]\<rparr>) (user_id r)),
           log_query INSERT ''tasks'' db\<lparr>tasks := tasks db @ [r]\<rparr>))"
  by (cases "insert_row E td") (auto simp: insert_task_def Let_def)

lemma POST_tasks_created:
  assumes "POST_tasks E db (Some uid) (Some b) = (Response (Task_json r p) 201, db')"
  shows "\<exists>td. taskData_of E uid b = Inr td \<and> insert_row E td = Inr r \<and> tasks db' = tasks db @ [r]"
proof -
  from assms obtain td where td: "taskData_of E uid b = Inr td"
    and ins: "insert_task E db uid td = (Inr (r, p), db')"
    by (auto simp: POST_tasks_def unauthorized_def internal_server_error_def
        split: if_splits sum.splits prod.splits)
  from insert_task_cases [of E db uid td] ins
  have "insert_row E td = Inr r \<and> tasks db' = tasks db @ [r]" by auto
  with td show ?thesis by blast
qed

lemma POST_tasks_cases:
  "(\<exists>r p db'. POST_tasks E db user body = (Response (Task_json r p) 201, db')) \<or>
   (\<exists>j n db'. POST_tasks E db user body = (Response j n, db') \<and>
       (n = 400 \<or> n = 401 \<or> n = 500) \<and> tasks db' = tasks db)"
proof (cases user)
  case None
  then show ?thesis by (simp add: POST_tasks_def unauthorized_def)
next
  case (Some uid)
  show ?thesis
  proof (cases body)
    case None
    with Some show ?thesis by (simp add: POST_tasks_def internal_server_error_def)
  next
    case (Some b)
    show ?thesis
    proof (cases "taskData_of E uid b")
      case (Inl e)
      with Some \<open>user = Some uid\<close> show ?thesis
        by (auto simp: POST_tasks_def internal_server_error_def split: sum.splits)
    next
      case (Inr td)
      from insert_task_cases [of E db uid td] Inr Some \<open>user = Some uid\<close> show ?thesis
        by (auto simp: POST_tasks_def internal_server_error_def split: sum.splits)
    qed
  qed
qed

lemma js_or_text_in:
  assumes "x = (if js_or v (JString d) = JUndefined then Some d' else text_in E (js_or v (JString d)))"
  shows "(\<not> truthy v \<longrightarrow> x = Some d) \<and> (\<forall>s. v = JString s \<and> s \<noteq> [] \<longrightarrow> x = Some s)"
  using assms by (auto simp: js_or_def)

lemma status_check_unknown:
  "s \<noteq> ''todo'' \<Longrightarrow> s \<noteq> ''in_progress'' \<Longrightarrow> s \<noteq> ''completed'' \<Longrightarrow> \<not> status_check (Some s)"
  by (simp add: status_check_def)

lemma priority_check_unknown:
  "s \<noteq> ''low'' \<Longrightarrow> s \<noteq> ''medium'' \<Longrightarrow> s \<noteq> ''high'' \<Longrightarrow> s \<noteq> ''urgent'' \<Longrightarrow>
     \<not> priority_check (Some s)"
  by (simp add: priority_check_def)

lemma POST_tasks_title_required:
  assumes "\<not> truthy (b_title b) \<or> (\<exists>s. b_title b = JString s \<and> trim E s = [])"
  shows "POST_tasks E db (Some uid) (Some b) = (Response (Error_json ''Title is required'') 400, db)"
  using assms by (auto simp: POST_tasks_def)

lemma POST_tasks_created_status:
  assumes "POST_tasks E db (Some uid) (Some b) = (Response (Task_json r p) 201, db')"
  shows "tasks db' = tasks db @ [r] \<and>
         (\<not> truthy (b_status b) \<longrightarrow> status r = Some ''todo'') \<and>
         (\<forall>s. b_status b = JString s \<and> s \<noteq> [] \<longrightarrow> status r = Some s) \<and>
         (\<not> truthy (b_priority b) \<longrightarrow> priority r = Some ''medium'') \<and>
         (\<forall>s. b_priority b = JString s \<and> s \<noteq> [] \<longrightarrow> priority r = Some s) \<and>
         status_check (status r) \<and> priority_check (priority r)"
proof -
  from POST_tasks_created [OF assms] obtain td where td: "taskData_of E uid b = Inr td"
    and row: "insert_row E td = Inr r" and tbl: "tasks db' = tasks db @ [r]" by blast
  from taskData_of_InrD [OF td] have st: "b_status td = js_or (b_status b) (JString ''todo'')"
    and pr: "b_priority td = js_or (b_priority b) (JString ''medium'')" by blast+
  from insert_row_InrD [OF row]
  have s1: "status r = (if b_status td = JUndefined then Some ''todo'' else text_in E (b_status td))"
    and p1: "priority r = (if b_priority td = JUndefined then Some ''medium'' else text_in E (b_priority td))"
    and chk: "status_check (status r)" "priority_check (priority r)" by blast+
  note a = js_or_text_in [OF s1 [unfolded st]]
  note b = js_or_text_in [OF p1 [unfolded pr]]
  from a b tbl chk show ?thesis by blast
qed

lemma POST_tasks_unknown_not_created:
  assumes "(\<exists>s. b_status b = JString s \<and> s \<noteq> [] \<and> s \<noteq> ''todo'' \<and> s \<noteq> ''in_progress'' \<and> s \<noteq> ''completed'') \<or>
           (\<exists>s. b_priority b = JString s \<and> s \<noteq> [] \<and> s \<noteq> ''low'' \<and> s \<noteq> ''medium'' \<and> s \<noteq> ''high'' \<and> s \<noteq> ''urgent'')"
  shows "http_status (fst (POST_tasks E db (Some uid) (Some b))) \<noteq> 201 \<and>
         tasks (snd (POST_tasks E db (Some uid) (Some b))) = tasks db"
proof -
  have no: "POST_tasks E db (Some uid) (Some b) \<noteq> (Response (Task_json r p) 201, db')" for r p db'
  proof
    assume "POST_tasks E db (Some uid) (Some b) = (Response (Task_json r p) 201, db')"
    from POST_tasks_created_status [OF this] assms show False
      by (auto simp: status_check_def priority_check_def)
  qed
  with POST_tasks_cases [of E db "Some uid" "Some b"] show ?thesis by auto
qed

text \<open>
  C4, as the code has it. A create request whose title is missing, falsy or empty after
  trimming is answered 400 and the backend is not touched. In the row of a created task a
  status or priority that is missing or falsy (\<open>null\<close>, the empty string, 0, false) is
  replaced by todo or medium, and a non-empty string is stored as it is. A non-empty
  status or priority string that the check constraint does not know is therefore not
  replaced: the insert fails and no row is created.
\<close>

theorem POST_tasks_title_required_and_defaults:
  "((\<not> truthy (b_title b) \<or> (\<exists>s. b_title b = JString s \<and> trim E s = [])) \<longrightarrow>
      POST_tasks E db (Some uid) (Some b) = (Response (Error_json ''Title is required'') 400, db)) \<and>
   (POST_tasks E db (Some uid) (Some b) = (Response (Task_json r p) 201, db') \<longrightarrow>
      tasks db' = tasks db @ [r] \<and>
      (\<not> truthy (b_status b) \<longrightarrow> status r = Some ''todo'') \<and>
      (\<forall>s. b_status b = JString s \<and> s \<noteq> [] \<longrightarrow> status r = Some s) \<and>
      (\<not> truthy (b_priority b) \<longrightarrow> priority r = Some ''medium'') \<and>
      (\<forall>s. b_priority b = JString s \<and> s \<noteq> [] \<longrightarrow> priority r = Some s)) \<and>
   ((\<exists>s. b_status b = JString s \<and> s \<noteq> [] \<and> s \<noteq> ''todo'' \<and> s \<noteq> ''in_progress'' \<and> s \<noteq> ''completed'') \<or>
    (\<exists>s. b_priority b = JString s \<and> s \<noteq> [] \<and> s \<noteq> ''low'' \<and> s \<noteq> ''medium'' \<and> s \<noteq> ''high'' \<and>
         s \<noteq> ''urgent'') \<longrightarrow>
      http_status (fst (POST_tasks E db (Some uid) (Some b))) \<noteq> 201 \<and>
      tasks (snd (POST_tasks E db (Some uid) (Some b))) = tasks db)"
  using POST_tasks_title_required [of b E db uid] POST_tasks_created_status [of E db uid b r p db']
    POST_tasks_unknown_not_created [of b E db uid]
  by blast

theorem POST_tasks_title_required_and_defaults_witness:
  "POST_tasks sample_env sample_db (Some ''u-alice'') (Some (no_fields\<lparr>b_title := JString ''   ''\<rparr>)) =
     (Response (Error_json ''Title is required'') 400, sample_db) \<and>
   POST_tasks sample_env sample_db (Some ''u-alice'') (Some no_fields) =
     (Response (Error_json ''Title is required'') 400, sample_db) \<and>
   (\<exists>r p db'. POST_tasks sample_env sample_db (Some ''u-alice'')
        (Some (no_fields\<lparr>b_title := JString '' Walk dog '', b_priority := JString ''low''\<rparr>)) =
        (Response (Task_json r p) 201, db') \<and>
      tasks db' = tasks sample_db @ [r] \<and> title r = ''Walk dog'' \<and>
      status r = Some ''todo'' \<and> priority r = Some ''low'') \<and>
   http_status (fst (POST_tasks sample_env sample_db (Some ''u-alice'')
        (Some (no_fields\<lparr>b_title := JString ''Walk dog'', b_priority := JString ''critical''\<rparr>)))) \<noteq> 201"
proof -
  let ?r = "\<lparr>id_task = ''new-id'', user_id = ''u-alice'', title = ''Walk dog'', description = None,
             status = Some ''todo'', priority = Some ''low'', category = None, due_date = None,
             completed_at = None, created_at = ''2025-06-01T12:00:00+00:00'',
             updated_at = ''2025-06-01T12:00:00+00:00''\<rparr>"
  let ?db = "sample_db\<lparr>tasks := [milk, ?r], issued := [(INSERT, ''tasks'')]\<rparr>"
  have ok: "POST_tasks sample_env sample_db (Some ''u-alice'')
        (Some (no_fields\<lparr>b_title := JString '' Walk dog '', b_priority := JString ''low''\<rparr>)) =
        (Response (Task_json ?r (Some (profile_ref_of alice))) 201, ?db)"
    by code_simp
  have t1: "\<not> truthy (b_title no_fields)" by (simp add: no_fields_def)
  have t2: "b_title (no_fields\<lparr>b_title := JString ''   ''\<rparr>) = JString ''   '' \<and>
      trim sample_env ''   '' = []"
    by code_simp
  have t3: "b_priority (no_fields\<lparr>b_title := JString ''Walk dog'', b_priority := JString ''critical''\<rparr>) =
      JString ''critical''" by simp
  from POST_tasks_title_required_and_defaults [of no_fields sample_env sample_db "''u-alice''"] t1
  have a: "POST_tasks sample_env sample_db (Some ''u-alice'') (Some no_fields) =
     (Response (Error_json ''Title is required'') 400, sample_db)" by blast
  from POST_tasks_title_required_and_defaults [of "no_fields\<lparr>b_title := JString ''   ''\<rparr>" sample_env
      sample_db "''u-alice''"] t2
  have b: "POST_tasks sample_env sample_db (Some ''u-alice'') (Some (no_fields\<lparr>b_title := JString ''   ''\<rparr>)) =
     (Response (Error_json ''Title is required'') 400, sample_db)" by blast
  from POST_tasks_title_required_and_defaults
    [of "no_fields\<lparr>b_title := JString '' Walk dog '', b_priority := JString ''low''\<rparr>" sample_env
      sample_db "''u-alice''" ?r "Some (profile_ref_of alice)" ?db] ok
  have c: "tasks ?db = tasks sample_db @ [?r] \<and> status ?r = Some ''todo'' \<and> priority ?r = Some ''low''"
    by (simp add: no_fields_def text_of_def)
  from POST_tasks_title_required_and_defaults
    [of "no_fields\<lparr>b_title := JString ''Walk dog'', b_priority := JString ''critical''\<rparr>" sample_env
      sample_db "''u-alice''"] t3
  have d: "http_status (fst (POST_tasks sample_env sample_db (Some ''u-alice'')
        (Some (no_fields\<lparr>b_title := JString ''Walk dog'', b_priority := JString ''critical''\<rparr>)))) \<noteq> 201"
    by simp
  from a b c d ok show ?thesis by auto
qed

text \<open>
  C4, as the claim states it, fails for the unknown status archived and the unknown priority
  critical: the row the handler prepares carries them unchanged, the backend refuses the
  insert, and the answer is 500 with nothing inserted.
\<close>

theorem POST_tasks_unknown_status_counterexample:
  "taskData_of sample_env ''u-alice'' (no_fields\<lparr>b_title := JString ''Walk dog'', b_status := JString ''archived''\<rparr>) =
     Inr \<lparr>b_title = JString ''Walk dog'', b_description = JNull, b_status = JString ''archived'',
          b_priority = JString ''medium'', b_due_date = JNull, b_category = JNull,
          ins_user_id = ''u-alice''\<rparr> \<and>
   POST_tasks sample_env sample_db (Some ''u-alice'')
       (Some (no_fields\<lparr>b_title := JString ''Walk dog'', b_status := JString ''archived''\<rparr>)) =
     (Response (Error_json ''Failed to create task'') 500, sample_db\<lparr>issued := [(INSERT, ''tasks'')]\<rparr>) \<and>
   taskData_of sample_env ''u-alice'' (no_fields\<lparr>b_title := JString ''Walk dog'', b_priority := JString ''critical''\<rparr>) =
     Inr \<lparr>b_title = JString ''Walk dog'', b_description = JNull, b_status = JString ''todo'',
          b_priority = JString ''critical'', b_due_date = JNull, b_category = JNull,
          ins_user_id = ''u-alice''\<rparr> \<and>
   POST_tasks sample_env sample_db (Some ''u-alice'')
       (Some (no_fields\<lparr>b_title := JString ''Walk dog'', b_priority := JString ''critical''\<rparr>)) =
     (Response (Error_json ''Failed to create task'') 500, sample_db\<lparr>issued := [(INSERT, ''tasks'')]\<rparr>)"
  by code_simp

section \<open>Properties of the user search\<close>

lemma GET_users_search_blank:
  assumes "query = None \<or> (\<exists>q. query = Some q \<and> (q = [] \<or> trim E q = []))"
  shows "GET_users_search E db (Some uid) query = (Response (Users_json []) 200, db)"
  using assms by (auto simp: GET_users_search_def)

lemma matching_users_props:
  assumes "users = map profile_ref_of
             (take 10 (filter (\<lambda>p. matches (email p) \<and> id_profile p \<noteq> uid) (profiles db)))"
  shows "length users \<le> 10"
    and "uid \<notin> set (map ref_id users)"
    and "\<forall>u\<in>set users. \<exists>p\<in>set (profiles db). u = profile_ref_of p \<and> matches (email p)"
proof -
  let ?m = "filter (\<lambda>p. matches (email p) \<and> id_profile p \<noteq> uid) (profiles db)"
  note u = assms
  show "length users \<le> 10" unfolding u by simp
  have sub: "set (take 10 ?m) \<subseteq> set ?m" by (rule set_take_subset)
  show "uid \<notin> set (map ref_id users)"
  proof
    assume "uid \<in> set (map ref_id users)"
    then obtain p where "p \<in> set (take 10 ?m)" "ref_id (profile_ref_of p) = uid"
      unfolding u by auto
    with sub show False by (auto simp: profile_ref_of_def)
  qed
  show "\<forall>u\<in>set users. \<exists>p\<in>set (profiles db). u = profile_ref_of p \<and> matches (email p)"
  proof
    fix x assume "x \<in> set users"
    then obtain p where "p \<in> set (take 10 ?m)" "x = profile_ref_of p" unfolding u by auto
    with sub show "\<exists>p\<in>set (profiles db). x = profile_ref_of p \<and> matches (email p)"
      by auto
  qed
qed

lemma GET_users_search_failed:
  assumes "q \<noteq> []" and "trim E q \<noteq> []" and "ilike E (''%'' @ q @ ''%'') = None"
  shows "GET_users_search E db (Some uid) (Some q) =
           (Response (Error_json ''Failed to search users'') 500, log_query SELECT ''profiles'' db)"
  using assms by (simp add: GET_users_search_def search_users_def)

lemma GET_users_search_answered:
  assumes "q \<noteq> []" and "trim E q \<noteq> []" and "ilike E (''%'' @ q @ ''%'') = Some matches"
  shows "GET_users_search E db (Some uid) (Some q) =
           (Response (Users_json (map profile_ref_of
              (take 10 (filter (\<lambda>p. matches (email p) \<and> id_profile p \<noteq> uid) (profiles db))))) 200,
            log_query SELECT ''profiles'' db)"
  using assms by (simp add: GET_users_search_def search_users_def)

text \<open>
  C8, as the code has it. A search whose query is missing, empty or white space only is
  answered 200 with an empty list and sends nothing to the backend. A query with a
  character that is not white space sends one SELECT on the profiles, with the pattern
  \<open>%query%\<close> under \<open>ILIKE\<close>. When the backend answers it, the response is 200 with the
  first ten profiles whose email matches, the caller's own left out; when the backend
  reports an error, the response is 500.
\<close>

theorem GET_users_search_result:
  "((query = None \<or> (\<exists>q. query = Some q \<and> (q = [] \<or> trim E q = []))) \<longrightarrow>
      GET_users_search E db (Some uid) query = (Response (Users_json []) 200, db)) \<and>
   (q \<noteq> [] \<and> trim E q \<noteq> [] \<and> ilike E (''%'' @ q @ ''%'') = None \<longrightarrow>
      GET_users_search E db (Some uid) (Some q) =
        (Response (Error_json ''Failed to search users'') 500, log_query SELECT ''profiles'' db)) \<and>
   (q \<noteq> [] \<and> trim E q \<noteq> [] \<and> ilike E (''%'' @ q @ ''%'') = Some matches \<longrightarrow>
      (\<exists>users. GET_users_search E db (Some uid) (Some q) =
                 (Response (Users_json users) 200, log_query SELECT ''profiles'' db) \<and>
         users = map profile_ref_of
           (take 10 (filter (\<lambda>p. matches (email p) \<and> id_profile p \<noteq> uid) (profiles db))) \<and>
         length users \<le> 10 \<and>
         uid \<notin> set (map ref_id users) \<and>
         (\<forall>u\<in>set users. \<exists>p\<in>set (profiles db). u = profile_ref_of p \<and> matches (email p))))"
proof (intro conjI impI)
  assume "query = None \<or> (\<exists>q. query = Some q \<and> (q = [] \<or> trim E q = []))"
  then show "GET_users_search E db (Some uid) query = (Response (Users_json []) 200, db)"
    by (rule GET_users_search_blank)
next
  assume "q \<noteq> [] \<and> trim E q \<noteq> [] \<and> ilike E (''%'' @ q @ ''%'') = None"
  then show "GET_users_search E db (Some uid) (Some q) =
        (Response (Error_json ''Failed to search users'') 500, log_query SELECT ''profiles'' db)"
    by (simp add: GET_users_search_failed)
next
  assume a: "q \<noteq> [] \<and> trim E q \<noteq> [] \<and> ilike E (''%'' @ q @ ''%'') = Some matches"
  let ?users = "map profile_ref_of
           (take 10 (filter (\<lambda>p. matches (email p) \<and> id_profile p \<noteq> uid) (profiles db)))"
  from a have "GET_users_search E db (Some uid) (Some q) =
      (Response (Users_json ?users) 200, log_query SELECT ''profiles'' db)"
    by (simp add: GET_users_search_answered)
  with matching_users_props [of ?users matches uid db, OF refl]
  show "\<exists>users. GET_users_search E db (Some uid) (Some q) =
                 (Response (Users_json users) 200, log_query SELECT ''profiles'' db) \<and>
         users = map profile_ref_of
           (take 10 (filter (\<lambda>p. matches (email p) \<and> id_profile p \<noteq> uid) (profiles db))) \<and>
         length users \<le> 10 \<and>
         uid \<notin> set (map ref_id users) \<and>
         (\<forall>u\<in>set users. \<exists>p\<in>set (profiles db). u = profile_ref_of p \<and> matches (email p))"
    by blast
qed

theorem GET_users_search_result_witness:
  "GET_users_search sample_env sample_db (Some ''u-alice'') (Some []) =
     (Response (Users_json []) 200, sample_db) \<and>
   ''EXAMPLE'' \<noteq> [] \<and> trim sample_env ''EXAMPLE'' \<noteq> [] \<and>
   GET_users_search sample_env sample_db (Some ''u-alice'') (Some ''EXAMPLE'') =
     (Response (Users_json [profile_ref_of bob, profile_ref_of carol]) 200,
      sample_db\<lparr>issued := [(SELECT, ''profiles'')]\<rparr>) \<and>
   GET_users_search (sample_env\<lparr>ilike := (\<lambda>pat. None)\<rparr>) sample_db (Some ''u-alice'') (Some ''EXAMPLE'') =
     (Response (Error_json ''Failed to search users'') 500,
      sample_db\<lparr>issued := [(SELECT, ''profiles'')]\<rparr>)"
proof -
  let ?m = "\<lambda>v. contains (map lower_ascii v) (map lower_ascii (butlast (tl (''%'' @ ''EXAMPLE'' @ ''%''))))"
  let ?F = "sample_env\<lparr>ilike := (\<lambda>pat. None)\<rparr>"
  have ne: "''EXAMPLE'' \<noteq> []" by simp
  have nb: "trim sample_env ''EXAMPLE'' \<noteq> []" by code_simp
  have nbF: "trim ?F ''EXAMPLE'' \<noteq> []" by code_simp
  have il: "ilike sample_env (''%'' @ ''EXAMPLE'' @ ''%'') = Some ?m"
    by (simp add: sample_env_def)
  have ilF: "ilike ?F (''%'' @ ''EXAMPLE'' @ ''%'') = None" by simp
  have m: "map profile_ref_of
           (take 10 (filter (\<lambda>p. ?m (email p) \<and> id_profile p \<noteq> ''u-alice'') (profiles sample_db))) =
           [profile_ref_of bob, profile_ref_of carol]"
    by code_simp
  have l: "log_query SELECT ''profiles'' sample_db = sample_db\<lparr>issued := [(SELECT, ''profiles'')]\<rparr>"
    by code_simp
  have b0: "Some [] = None \<or> (\<exists>q. Some [] = Some q \<and> (q = [] \<or> trim sample_env q = []))"
    by simp
  have a: "GET_users_search sample_env sample_db (Some ''u-alice'') (Some []) =
     (Response (Users_json []) 200, sample_db)"
    by (rule GET_users_search_result [of "Some []" sample_env sample_db "''u-alice''",
          THEN conjunct1, THEN mp, OF b0])
  from GET_users_search_result [where E = sample_env and q = "''EXAMPLE''" and matches = ?m
        and db = sample_db and uid = "''u-alice''",
      THEN conjunct2, THEN conjunct2, THEN mp, OF conjI [OF ne conjI [OF nb il]]]
  have b: "GET_users_search sample_env sample_db (Some ''u-alice'') (Some ''EXAMPLE'') =
     (Response (Users_json [profile_ref_of bob, profile_ref_of carol]) 200,
      sample_db\<lparr>issued := [(SELECT, ''profiles'')]\<rparr>)"
    unfolding m l by blast
  have c: "GET_users_search ?F sample_db (Some ''u-alice'') (Some ''EXAMPLE'') =
     (Response (Error_json ''Failed to search users'') 500,
      sample_db\<lparr>issued := [(SELECT, ''profiles'')]\<rparr>)"
    using GET_users_search_result [where E = ?F and q = "''EXAMPLE''" and db = sample_db
        and uid = "''u-alice''",
      THEN conjunct2, THEN conjunct1, THEN mp, OF conjI [OF ne conjI [OF nbF ilF]]]
    unfolding l .
  show ?thesis by (intro conjI) (fact a ne nb b c)+
qed

text \<open>
  C8, as the claim states it, fails for the query of one space: it is not empty, yet the
  handler performs no match and answers the empty list, while the match on the profiles
  finds the email with a space in it.
\<close>

theorem GET_users_search_blank_query_counterexample:
  "'' '' \<noteq> [] \<and>
   GET_users_search sample_env sample_db (Some ''u-alice'') (Some '' '') =
     (Response (Users_json []) 200, sample_db) \<and>
   search_users sample_env sample_db ''u-alice'' '' '' =
     (Inr [profile_ref_of carol], sample_db\<lparr>issued := [(SELECT, ''profiles'')]\<rparr>)"
  by code_simp

section \<open>Properties of the share handler\<close>

lemma insert_share_duplicate:
  assumes "list_ex (\<lambda>s. task_id s = tid \<and> shared_with_user_id s = target) (task_shares db)"
  shows "\<exists>e. insert_share E db uid tid target = (Inl e, log_query INSERT ''task_shares'' db)"
  using assms by (auto simp: insert_share_def Let_def)

lemma embedded_shares_log [simp]:
  "embedded_shares (log_query v tbl db) uid tid = embedded_shares db uid tid"
  by (simp add: embedded_shares_def)

lemma POST_share_owner_steps:
  assumes "distinct (map id_task (tasks db))" and "t \<in> set (tasks db)" and "user_id t = uid"
    and "truthy (userEmail b)"
    and "single (filter (\<lambda>p. email p = text_of E (userEmail b)) (profiles db)) = Some target"
  shows "POST_share E db (Some uid) (id_task t) (Some b) =
     (if id_profile target = uid
      then (Response (Error_json ''Cannot share task with yourself'') 400,
            log_query SELECT ''profiles'' (log_query SELECT ''tasks'' db))
      else
        (case single (filter (\<lambda>s. shared_with_user_id s = id_profile target)
                       (embedded_shares db uid (id_task t))) of
           Some existingShare \<Rightarrow>
             (Response (Error_json ''Task already shared with this user'') 400,
              log_query SELECT ''task_shares'' (log_query SELECT ''profiles'' (log_query SELECT ''tasks'' db)))
         | None \<Rightarrow>
             (case insert_share E
                     (log_query SELECT ''task_shares'' (log_query SELECT ''profiles'' (log_query SELECT ''tasks'' db)))
                     uid (id_task t) (id_profile target) of
                (Inl e, db4) \<Rightarrow> (Response (Error_json ''Failed to share task'') 500, db4)
              | (Inr (newShare, p), db4) \<Rightarrow>
                  (Response (Share_json ''Task shared successfully'' newShare p) 201, db4))))"
  using assms(3-5) select_task_owner [OF assms(1-3)]
  by (simp add: POST_share_def Let_def)

lemma filter_visible_single:
  assumes "filter (\<lambda>s. task_id s = tid \<and> shared_with_user_id s = target) (task_shares db) = [s]"
    and "policy_task_shares_select uid s"
  shows "filter (\<lambda>s. shared_with_user_id s = target) (embedded_shares db uid tid) = [s]"
proof -
  have "filter (\<lambda>s. shared_with_user_id s = target) (embedded_shares db uid tid) =
        filter (policy_task_shares_select uid)
          (filter (\<lambda>s. task_id s = tid \<and> shared_with_user_id s = target) (task_shares db))"
    by (auto simp: embedded_shares_def intro: filter_cong)
  with assms show ?thesis by simp
qed

text \<open>
  C6. For a share request of the task's owner whose email resolves to a profile: when
  that profile is the owner's own the request is answered 400; when a share row of the
  same task and user exists the request is answered 400 or 500 (400 when the owner's
  existence query sees exactly that row, 500 from the unique constraint otherwise). In
  both cases the shares table is left as it was.
\<close>

theorem POST_share_rejects_self_and_duplicate:
  assumes "distinct (map id_task (tasks db))" and "t \<in> set (tasks db)" and "user_id t = uid"
    and "truthy (userEmail b)"
    and "single (filter (\<lambda>p. email p = text_of E (userEmail b)) (profiles db)) = Some target"
  shows "(id_profile target = uid \<longrightarrow>
            POST_share E db (Some uid) (id_task t) (Some b) =
              (Response (Error_json ''Cannot share task with yourself'') 400,
               log_query SELECT ''profiles'' (log_query SELECT ''tasks'' db))) \<and>
         (list_ex (\<lambda>s. task_id s = id_task t \<and> shared_with_user_id s = id_profile target) (task_shares db) \<longrightarrow>
            (http_status (fst (POST_share E db (Some uid) (id_task t) (Some b))) = 400 \<or>
             http_status (fst (POST_share E db (Some uid) (id_task t) (Some b))) = 500) \<and>
            task_shares (snd (POST_share E db (Some uid) (id_task t) (Some b))) = task_shares db) \<and>
         (id_profile target \<noteq> uid \<and> shared_by_user_id s = uid \<and>
          filter (\<lambda>s. task_id s = id_task t \<and> shared_with_user_id s = id_profile target) (task_shares db) = [s] \<longrightarrow>
            POST_share E db (Some uid) (id_task t) (Some b) =
              (Response (Error_json ''Task already shared with this user'') 400,
               log_query SELECT ''task_shares''
                 (log_query SELECT ''profiles'' (log_query SELECT ''tasks'' db))))"
proof (intro conjI impI)
  note steps = POST_share_owner_steps [OF assms]
  show "POST_share E db (Some uid) (id_task t) (Some b) =
              (Response (Error_json ''Cannot share task with yourself'') 400,
               log_query SELECT ''profiles'' (log_query SELECT ''tasks'' db))"
    if "id_profile target = uid"
    using that steps by simp
  show "POST_share E db (Some uid) (id_task t) (Some b) =
              (Response (Error_json ''Task already shared with this user'') 400,
               log_query SELECT ''task_shares''
                 (log_query SELECT ''profiles'' (log_query SELECT ''tasks'' db)))"
    if h: "id_profile target \<noteq> uid \<and> shared_by_user_id s = uid \<and>
          filter (\<lambda>s. task_id s = id_task t \<and> shared_with_user_id s = id_profile target) (task_shares db) = [s]"
  proof -
    from h have "policy_task_shares_select uid s" by (simp add: policy_task_shares_select_def)
    with h have "filter (\<lambda>s. shared_with_user_id s = id_profile target)
        (embedded_shares db uid (id_task t)) = [s]"
      by (simp add: filter_visible_single)
    with h steps show ?thesis by (simp add: single_def)
  qed
  assume dup: "list_ex (\<lambda>s. task_id s = id_task t \<and> shared_with_user_id s = id_profile target) (task_shares db)"
  let ?db3 = "log_query SELECT ''task_shares'' (log_query SELECT ''profiles'' (log_query SELECT ''tasks'' db))"
  from dup have "list_ex (\<lambda>s. task_id s = id_task t \<and> shared_with_user_id s = id_profile target) (task_shares ?db3)"
    by simp
  from insert_share_duplicate [OF this, of E uid]
  obtain e where ins: "insert_share E ?db3 uid (id_task t) (id_profile target) =
      (Inl e, log_query INSERT ''task_shares'' ?db3)" by blast
  have "(http_status (fst (POST_share E db (Some uid) (id_task t) (Some b))) = 400 \<or>
         http_status (fst (POST_share E db (Some uid) (id_task t) (Some b))) = 500) \<and>
        task_shares (snd (POST_share E db (Some uid) (id_task t) (Some b))) = task_shares db"
    unfolding steps using ins by (simp split: option.splits)
  then show "http_status (fst (POST_share E db (Some uid) (id_task t) (Some b))) = 400 \<or>
         http_status (fst (POST_share E db (Some uid) (id_task t) (Some b))) = 500"
    and "task_shares (snd (POST_share E db (Some uid) (id_task t) (Some b))) = task_shares db"
    by blast+
qed


theorem POST_share_rejects_self_and_duplicate_witness:
  "distinct (map id_task (tasks sample_db)) \<and> milk \<in> set (tasks sample_db) \<and>
   user_id milk = ''u-alice'' \<and>
   single (filter (\<lambda>p. email p = text_of sample_env (userEmail \<lparr>userEmail = JString ''bob@example.com''\<rparr>))
      (profiles sample_db)) = Some bob \<and>
   list_ex (\<lambda>s. task_id s = id_task milk \<and> shared_with_user_id s = id_profile bob) (task_shares sample_db) \<and>
   POST_share sample_env sample_db (Some ''u-alice'') ''t-milk''
       (Some \<lparr>userEmail = JString ''alice@example.com''\<rparr>) =
     (Response (Error_json ''Cannot share task with yourself'') 400,
      log_query SELECT ''profiles'' (log_query SELECT ''tasks'' sample_db)) \<and>
   POST_share sample_env sample_db (Some ''u-alice'') ''t-milk''
       (Some \<lparr>userEmail = JString ''bob@example.com''\<rparr>) =
     (Response (Error_json ''Task already shared with this user'') 400,
      log_query SELECT ''task_shares''
        (log_query SELECT ''profiles'' (log_query SELECT ''tasks'' sample_db))) \<and>
   task_shares (snd (POST_share sample_env sample_db (Some ''u-alice'') ''t-milk''
       (Some \<lparr>userEmail = JString ''bob@example.com''\<rparr>))) = task_shares sample_db"
proof -
  let ?a = "\<lparr>userEmail = JString ''alice@example.com''\<rparr>"
  let ?b = "\<lparr>userEmail = JString ''bob@example.com''\<rparr>"
  have h1: "distinct (map id_task (tasks sample_db))" by code_simp
  have h2: "milk \<in> set (tasks sample_db)" by (simp add: sample_db_def)
  have h3: "user_id milk = ''u-alice''" by (simp add: milk_def)
  have h4: "id_task milk = ''t-milk''" by (simp add: milk_def)
  have ea: "truthy (userEmail ?a)" and eb: "truthy (userEmail ?b)" by simp_all
  have ta: "single (filter (\<lambda>p. email p = text_of sample_env (userEmail ?a)) (profiles sample_db)) = Some alice"
    by code_simp
  have tb: "single (filter (\<lambda>p. email p = text_of sample_env (userEmail ?b)) (profiles sample_db)) = Some bob"
    by code_simp
  have ia: "id_profile alice = ''u-alice''" by (simp add: alice_def)
  have lx: "list_ex (\<lambda>s. task_id s = id_task milk \<and> shared_with_user_id s = id_profile bob)
              (task_shares sample_db)" by code_simp
  have vis: "id_profile bob \<noteq> ''u-alice'' \<and> shared_by_user_id milk_share = ''u-alice'' \<and>
     filter (\<lambda>s. task_id s = id_task milk \<and> shared_with_user_id s = id_profile bob) (task_shares sample_db) =
       [milk_share]" by code_simp
  have a: "POST_share sample_env sample_db (Some ''u-alice'') ''t-milk'' (Some ?a) =
     (Response (Error_json ''Cannot share task with yourself'') 400,
      log_query SELECT ''profiles'' (log_query SELECT ''tasks'' sample_db))"
    using POST_share_rejects_self_and_duplicate [OF h1 h2 h3 ea ta, THEN conjunct1, THEN mp, OF ia]
    by (simp only: h4)
  have b: "POST_share sample_env sample_db (Some ''u-alice'') ''t-milk'' (Some ?b) =
     (Response (Error_json ''Task already shared with this user'') 400,
      log_query SELECT ''task_shares''
        (log_query SELECT ''profiles'' (log_query SELECT ''tasks'' sample_db)))"
    using POST_share_rejects_self_and_duplicate [OF h1 h2 h3 eb tb, THEN conjunct2, THEN conjunct2,
        THEN mp, OF vis]
    by (simp only: h4)
  have c: "task_shares (snd (POST_share sample_env sample_db (Some ''u-alice'') ''t-milk'' (Some ?b))) =
      task_shares sample_db"
    using POST_share_rejects_self_and_duplicate [OF h1 h2 h3 eb tb, THEN conjunct2, THEN conjunct1,
        THEN mp, OF lx, THEN conjunct2]
    by (simp only: h4)
  show ?thesis by (intro conjI) (fact h1 h2 h3 tb lx a b c)+
qed

section \<open>The fields an update applies\<close>

lemma update_rows_only:
  assumes "distinct xs" and "\<forall>x\<in>set xs. target x \<longleftrightarrow> x = t"
  shows "update_rows target f xs =
     (if t \<in> set xs
      then (case f t of Inl e \<Rightarrow> Inl e | Inr r \<Rightarrow> Inr (map (\<lambda>x. if x = t then r else x) xs, [r]))
      else Inr (xs, []))"
  using assms
proof (induction xs)
  case Nil
  then show ?case by simp
next
  case (Cons a xs)
  then have IH: "update_rows target f xs =
     (if t \<in> set xs
      then (case f t of Inl e \<Rightarrow> Inl e | Inr r \<Rightarrow> Inr (map (\<lambda>x. if x = t then r else x) xs, [r]))
      else Inr (xs, []))" by simp
  show ?case
  proof (cases "a = t")
    case True
    with Cons.prems have "t \<notin> set xs" "target a" by auto
    then have "map (\<lambda>x. if x = t then r else x) xs = xs" for r
      by (induction xs) auto
    with True \<open>t \<notin> set xs\<close> \<open>target a\<close> IH show ?thesis
      by (simp split: sum.splits)
  next
    case False
    with Cons.prems have "\<not> target a" by auto
    with False IH show ?thesis by (auto split: sum.splits)
  qed
qed

lemma owner_target:
  assumes "distinct (map id_task (tasks db))" and "t \<in> set (tasks db)" and "user_id t = uid"
  shows "\<forall>x\<in>set (tasks db).
           (id_task x = id_task t \<and> policy_tasks_write uid x \<and> policy_tasks_select db' uid x) \<longleftrightarrow> x = t"
  using assms
  by (auto simp: policy_tasks_write_def policy_tasks_select_def distinct_map inj_on_def)

lemma update_task_owner:
  assumes "distinct (map id_task (tasks db))" and "t \<in> set (tasks db)" and "user_id t = uid"
    and "\<not> no_columns upd"
  shows "update_task E db uid (id_task t) upd =
     (case update_row E upd t of
        Inl e \<Rightarrow> (Inl e, log_query UPDATE ''tasks'' db)
      | Inr r \<Rightarrow>
          (Inr (r, profile_by_id db (user_id r)),
           log_query UPDATE ''tasks'' db\<lparr>tasks := map (\<lambda>x. if x = t then r else x) (tasks db)\<rparr>))"
proof -
  have d: "distinct (tasks db)" using assms(1) by (simp add: distinct_map)
  have "profile_by_id (db'\<lparr>tasks := tbl\<rparr>) u = profile_by_id db u"
    if "profiles db' = profiles db" for db' tbl u
    using that by (simp add: profile_by_id_def)
  then show ?thesis
    using assms(2,4) update_rows_only [OF d owner_target [OF assms(1-3)], of db "update_row E upd"]
    by (simp add: update_task_def Let_def single_def split: sum.splits)
qed


lemma title_guard_dead: "(truthy v \<and> v = JString []) = False"
  by auto

lemma PATCH_task_owner:
  assumes "distinct (map id_task (tasks db))" and "t \<in> set (tasks db)" and "user_id t = uid"
  shows "PATCH_task E db (Some uid) (id_task t) (Some b) =
     (case updateData_of E b of
        Inl e \<Rightarrow> (internal_server_error, log_query SELECT ''tasks'' db)
      | Inr upd \<Rightarrow>
          (case update_task E (log_query SELECT ''tasks'' db) uid (id_task t) upd of
             (Inl e, db2) \<Rightarrow> (Response (Error_json ''Failed to update task'') 500, db2)
           | (Inr (updatedTask, p), db2) \<Rightarrow> (Response (Task_json updatedTask p) 200, db2)))"
  using assms(3)
  by (simp add: PATCH_task_def select_task_owner [OF assms] title_guard_dead split: sum.splits)

lemma update_task_no_columns:
  "no_columns upd \<Longrightarrow> update_task E db uid tid upd = (Inl Not_a_single_row, log_query UPDATE ''tasks'' db)"
  by (simp add: update_task_def)

lemma PATCH_task_owner_ok:
  assumes "distinct (map id_task (tasks db))" and "t \<in> set (tasks db)" and "user_id t = uid"
    and "PATCH_task E db (Some uid) (id_task t) (Some b) = (Response (Task_json r p) 200, db')"
  shows "\<exists>upd. updateData_of E b = Inr upd \<and> update_row E upd t = Inr r \<and>
           tasks db' = map (\<lambda>x. if x = t then r else x) (tasks db) \<and>
           profiles db' = profiles db \<and> task_shares db' = task_shares db \<and>
           comments db' = comments db \<and> attachments db' = attachments db"
proof (cases "updateData_of E b")
  case (Inl e)
  with assms(4) show ?thesis
    by (simp add: PATCH_task_owner [OF assms(1-3)] internal_server_error_def)
next
  case (Inr upd)
  let ?db1 = "log_query SELECT ''tasks'' db"
  have a1: "distinct (map id_task (tasks ?db1))" "t \<in> set (tasks ?db1)"
    using assms(1,2) by simp_all
  show ?thesis
  proof (cases "no_columns upd")
    case True
    with Inr assms(4) show ?thesis
      by (simp add: PATCH_task_owner [OF assms(1-3)] update_task_no_columns)
  next
    case False
    from update_task_owner [OF a1 assms(3) False, of E] Inr assms(4)
    show ?thesis
      by (cases "update_row E upd t") (auto simp: PATCH_task_owner [OF assms(1-3)])
  qed
qed

lemma updateData_of_InrD:
  assumes "updateData_of E b = Inr upd"
  shows "b_status upd = b_status b" and "b_priority upd = b_priority b"
    and "b_due_date upd = b_due_date b" and "b_category upd = b_category b"
    and "b_title b = JUndefined \<Longrightarrow> b_title upd = JUndefined"
    and "b_title b = JString s \<Longrightarrow> b_title upd = JString (trim E s)"
    and "b_title b \<noteq> JNull"
    and "b_description b = JUndefined \<Longrightarrow> b_description upd = JUndefined"
    and "b_description b = JNull \<Longrightarrow> b_description upd = JNull"
    and "b_description b = JString s \<Longrightarrow>
           b_description upd = (if trim E s = [] then JNull else JString (trim E s))"
  using assms
  by (auto simp: updateData_of_def trim_or_null_def js_or_def split: if_splits sum.splits)

lemma update_row_Inr_form:
  assumes "update_row E upd t = Inr r"
  shows "\<exists>due. (if b_due_date upd = JUndefined then Inr (due_date t)
                else timestamptz_col E (b_due_date upd)) = Inr due \<and>
               r = set_columns E upd due t"
proof (cases "if b_due_date upd = JUndefined then Inr (due_date t) else timestamptz_col E (b_due_date upd)")
  case (Inl e)
  with assms show ?thesis by (simp add: update_row_def split: if_splits)
next
  case (Inr due)
  with assms have "r = set_columns E upd due t"
    by (simp add: update_row_def Let_def split: if_splits)
  with Inr show ?thesis by blast
qed

lemma update_row_InrD:
  assumes "update_row E upd t = Inr r"
  shows "id_task r = id_task t" and "user_id r = user_id t"
    and "completed_at r = completed_at t" and "created_at r = created_at t"
    and "updated_at r = now E"
    and "title r = (if b_title upd = JUndefined then title t else text_of E (b_title upd))"
    and "description r = (if b_description upd = JUndefined then description t
                          else text_in E (b_description upd))"
    and "status r = (if b_status upd = JUndefined then status t else text_in E (b_status upd))"
    and "priority r = (if b_priority upd = JUndefined then priority t else text_in E (b_priority upd))"
    and "category r = (if b_category upd = JUndefined then category t else text_in E (b_category upd))"
    and "b_due_date upd = JUndefined \<Longrightarrow> due_date r = due_date t"
    and "b_due_date upd = JNull \<Longrightarrow> due_date r = None"
    and "b_due_date upd = JString s \<Longrightarrow> due_date r = timestamptz_in E s"
proof -
  from update_row_Inr_form [OF assms] obtain due
    where due: "(if b_due_date upd = JUndefined then Inr (due_date t)
                 else timestamptz_col E (b_due_date upd)) = Inr due"
      and r: "r = set_columns E upd due t" by blast
  show "id_task r = id_task t" "user_id r = user_id t" "completed_at r = completed_at t"
    "created_at r = created_at t" "updated_at r = now E"
    by (simp_all add: r set_columns_def)
  show "title r = (if b_title upd = JUndefined then title t else text_of E (b_title upd))"
    by (simp add: r set_columns_def)
  show "description r = (if b_description upd = JUndefined then description t
                          else text_in E (b_description upd))"
    by (simp add: r set_columns_def)
  show "status r = (if b_status upd = JUndefined then status t else text_in E (b_status upd))"
    by (simp add: r set_columns_def)
  show "priority r = (if b_priority upd = JUndefined then priority t else text_in E (b_priority upd))"
    by (simp add: r set_columns_def)
  show "category r = (if b_category upd = JUndefined then category t else text_in E (b_category upd))"
    by (simp add: r set_columns_def)
  have dd: "due_date r = due" by (simp add: r set_columns_def)
  show "due_date r = due_date t" if "b_due_date upd = JUndefined"
    using that due dd by simp
  show "due_date r = None" if "b_due_date upd = JNull"
    using that due dd by (simp add: timestamptz_col_simps)
  show "due_date r = timestamptz_in E s" if "b_due_date upd = JString s"
    using that due dd by (auto simp: timestamptz_col_simps split: option.splits)
qed

lemma PATCH_task_null_title:
  assumes "distinct (map id_task (tasks db))" and "t \<in> set (tasks db)" and "user_id t = uid"
    and "b_title b = JNull"
  shows "PATCH_task E db (Some uid) (id_task t) (Some b) =
           (internal_server_error, log_query SELECT ''tasks'' db)"
  using assms(4) by (simp add: PATCH_task_owner [OF assms(1-3)] updateData_of_def)


text \<open>
  C5, as the code has it. When the update of the task's owner succeeds, only that row of
  the tasks table changes, the other tables stay as they were, and in that row: a field
  the body omits keeps its value; a description, status, priority, category or due date
  sent as \<open>null\<close> is cleared; a string is stored, the title and the description trimmed,
  a description that trims to nothing as \<open>null\<close>, the due date as the timestamp it
  denotes. The title cannot be cleared: a title sent as \<open>null\<close> makes the handler throw
  and the answer is 500, the row untouched.
\<close>

theorem PATCH_task_applies_present_fields:
  assumes "distinct (map id_task (tasks db))" and "t \<in> set (tasks db)" and "user_id t = uid"
  shows "(b_title b = JNull \<longrightarrow>
            PATCH_task E db (Some uid) (id_task t) (Some b) =
              (internal_server_error, log_query SELECT ''tasks'' db)) \<and>
         (PATCH_task E db (Some uid) (id_task t) (Some b) = (Response (Task_json r p) 200, db') \<longrightarrow>
            tasks db' = map (\<lambda>x. if x = t then r else x) (tasks db) \<and>
            profiles db' = profiles db \<and> task_shares db' = task_shares db \<and>
            comments db' = comments db \<and> attachments db' = attachments db \<and>
            id_task r = id_task t \<and> user_id r = user_id t \<and>
            completed_at r = completed_at t \<and> created_at r = created_at t \<and>
            (b_title b = JUndefined \<longrightarrow> title r = title t) \<and>
            (\<forall>s. b_title b = JString s \<and> trim E s \<noteq> [] \<longrightarrow> title r = trim E s) \<and>
            (b_description b = JUndefined \<longrightarrow> description r = description t) \<and>
            (b_description b = JNull \<longrightarrow> description r = None) \<and>
            (\<forall>s. b_description b = JString s \<longrightarrow>
                description r = (if trim E s = [] then None else Some (trim E s))) \<and>
            (b_status b = JUndefined \<longrightarrow> status r = status t) \<and>
            (b_status b = JNull \<longrightarrow> status r = None) \<and>
            (\<forall>s. b_status b = JString s \<longrightarrow> status r = Some s) \<and>
            (b_priority b = JUndefined \<longrightarrow> priority r = priority t) \<and>
            (b_priority b = JNull \<longrightarrow> priority r = None) \<and>
            (\<forall>s. b_priority b = JString s \<longrightarrow> priority r = Some s) \<and>
            (b_category b = JUndefined \<longrightarrow> category r = category t) \<and>
            (b_category b = JNull \<longrightarrow> category r = None) \<and>
            (\<forall>s. b_category b = JString s \<longrightarrow> category r = Some s) \<and>
            (b_due_date b = JUndefined \<longrightarrow> due_date r = due_date t) \<and>
            (b_due_date b = JNull \<longrightarrow> due_date r = None) \<and>
            (\<forall>s. b_due_date b = JString s \<longrightarrow> due_date r = timestamptz_in E s))"
proof (intro conjI impI)
  assume "b_title b = JNull"
  then show "PATCH_task E db (Some uid) (id_task t) (Some b) =
              (internal_server_error, log_query SELECT ''tasks'' db)"
    by (rule PATCH_task_null_title [OF assms])
next
  assume ok: "PATCH_task E db (Some uid) (id_task t) (Some b) = (Response (Task_json r p) 200, db')"
  from PATCH_task_owner_ok [OF assms ok] obtain upd
    where upd: "updateData_of E b = Inr upd" and row: "update_row E upd t = Inr r"
      and tbl: "tasks db' = map (\<lambda>x. if x = t then r else x) (tasks db)"
      and others: "profiles db' = profiles db" "task_shares db' = task_shares db"
        "comments db' = comments db" "attachments db' = attachments db" by blast
  note u = updateData_of_InrD [OF upd]
  note w = update_row_InrD [OF row]
  show "tasks db' = map (\<lambda>x. if x = t then r else x) (tasks db)" by (rule tbl)
  show "profiles db' = profiles db" "task_shares db' = task_shares db"
    "comments db' = comments db" "attachments db' = attachments db" by (rule others)+
  show "id_task r = id_task t" "user_id r = user_id t" "completed_at r = completed_at t"
    "created_at r = created_at t" by (rule w)+
  show "title r = title t" if "b_title b = JUndefined"
    using w(6) u(5) [OF that] by simp
  show "\<forall>s. b_title b = JString s \<and> trim E s \<noteq> [] \<longrightarrow> title r = trim E s"
    using w(6) u(6) by auto
  show "description r = description t" if "b_description b = JUndefined"
    using w(7) u(8) [OF that] by simp
  show "description r = None" if "b_description b = JNull"
    using w(7) u(9) [OF that] by simp
  show "\<forall>s. b_description b = JString s \<longrightarrow>
                description r = (if trim E s = [] then None else Some (trim E s))"
    using w(7) u(10) by auto
  show "status r = status t" if "b_status b = JUndefined"
    using w(8) u(1) that by simp
  show "status r = None" if "b_status b = JNull"
    using w(8) u(1) that by simp
  show "\<forall>s. b_status b = JString s \<longrightarrow> status r = Some s"
    using w(8) u(1) by auto
  show "priority r = priority t" if "b_priority b = JUndefined"
    using w(9) u(2) that by simp
  show "priority r = None" if "b_priority b = JNull"
    using w(9) u(2) that by simp
  show "\<forall>s. b_priority b = JString s \<longrightarrow> priority r = Some s"
    using w(9) u(2) by auto
  show "category r = category t" if "b_category b = JUndefined"
    using w(10) u(4) that by simp
  show "category r = None" if "b_category b = JNull"
    using w(10) u(4) that by simp
  show "\<forall>s. b_category b = JString s \<longrightarrow> category r = Some s"
    using w(10) u(4) by auto
  show "due_date r = due_date t" if "b_due_date b = JUndefined"
    using w(11) u(3) that by simp
  show "due_date r = None" if "b_due_date b = JNull"
    using w(12) u(3) that by simp
  show "\<forall>s. b_due_date b = JString s \<longrightarrow> due_date r = timestamptz_in E s"
    using w(13) u(3) by auto
qed

theorem PATCH_task_applies_present_fields_witness:
  "distinct (map id_task (tasks sample_db)) \<and> milk \<in> set (tasks sample_db) \<and>
   user_id milk = ''u-alice'' \<and>
   PATCH_task sample_env sample_db (Some ''u-alice'') ''t-milk''
     (Some (no_fields\<lparr>b_status := JString ''completed'', b_category := JNull,
                      b_due_date := JString ''2030-01-01''\<rparr>)) =
     (Response (Task_json
        (milk\<lparr>status := Some ''completed'', category := None,
              due_date := Some ''2030-01-01T00:00:00+00:00'',
              updated_at := ''2025-06-01T12:00:00+00:00''\<rparr>)
        (Some (profile_ref_of alice))) 200,
      sample_db\<lparr>tasks := [milk\<lparr>status := Some ''completed'', category := None,
                                due_date := Some ''2030-01-01T00:00:00+00:00'',
                                updated_at := ''2025-06-01T12:00:00+00:00''\<rparr>],
                issued := [(SELECT, ''tasks''), (UPDATE, ''tasks'')]\<rparr>) \<and>
   title (milk\<lparr>status := Some ''completed'', category := None,
              due_date := Some ''2030-01-01T00:00:00+00:00'',
              updated_at := ''2025-06-01T12:00:00+00:00''\<rparr>) = title milk \<and>
   PATCH_task sample_env sample_db (Some ''u-alice'') ''t-milk'' (Some (no_fields\<lparr>b_title := JNull\<rparr>)) =
     (internal_server_error, sample_db\<lparr>issued := [(SELECT, ''tasks'')]\<rparr>)"
proof -
  let ?b = "no_fields\<lparr>b_status := JString ''completed'', b_category := JNull,
                      b_due_date := JString ''2030-01-01''\<rparr>"
  let ?r = "milk\<lparr>status := Some ''completed'', category := None,
              due_date := Some ''2030-01-01T00:00:00+00:00'',
              updated_at := ''2025-06-01T12:00:00+00:00''\<rparr>"
  let ?db = "sample_db\<lparr>tasks := [?r], issued := [(SELECT, ''tasks''), (UPDATE, ''tasks'')]\<rparr>"
  have h1: "distinct (map id_task (tasks sample_db))" by code_simp
  have h2: "milk \<in> set (tasks sample_db)" by (simp add: sample_db_def)
  have h3: "user_id milk = ''u-alice''" by (simp add: milk_def)
  have h4: "id_task milk = ''t-milk''" by (simp add: milk_def)
  have ok: "PATCH_task sample_env sample_db (Some ''u-alice'') ''t-milk'' (Some ?b) =
     (Response (Task_json ?r (Some (profile_ref_of alice))) 200, ?db)" by code_simp
  have l: "log_query SELECT ''tasks'' sample_db = sample_db\<lparr>issued := [(SELECT, ''tasks'')]\<rparr>"
    by code_simp
  have b1: "b_title ?b = JUndefined" by (simp add: no_fields_def)
  have b2: "b_title (no_fields\<lparr>b_title := JNull\<rparr>) = JNull" by simp
  have ok': "PATCH_task sample_env sample_db (Some ''u-alice'') (id_task milk) (Some ?b) =
     (Response (Task_json ?r (Some (profile_ref_of alice))) 200, ?db)"
    using ok by (simp only: h4)
  note T = PATCH_task_applies_present_fields [OF h1 h2 h3, of ?b sample_env ?r
      "Some (profile_ref_of alice)" ?db, THEN conjunct2, THEN mp, OF ok']
  have a: "title ?r = title milk"
    by (rule T [THEN conjunct2, THEN conjunct2, THEN conjunct2, THEN conjunct2, THEN conjunct2,
          THEN conjunct2, THEN conjunct2, THEN conjunct2, THEN conjunct2,
          THEN conjunct1, THEN mp, OF b1])
  have c: "PATCH_task sample_env sample_db (Some ''u-alice'') ''t-milk''
      (Some (no_fields\<lparr>b_title := JNull\<rparr>)) = (internal_server_error, sample_db\<lparr>issued := [(SELECT, ''tasks'')]\<rparr>)"
    using PATCH_task_applies_present_fields [OF h1 h2 h3, of "no_fields\<lparr>b_title := JNull\<rparr>"
      sample_env, THEN conjunct1, THEN mp, OF b2]
    by (simp only: h4 l)
  show ?thesis by (intro conjI) (fact h1 h2 h3 ok a c)+
qed

text \<open>
  C5, as the claim states it, fails for the field title: sent as \<open>null\<close> by the owner it is
  not cleared, the answer is 500 and the stored title stays.
\<close>

theorem PATCH_task_null_title_counterexample:
  "PATCH_task sample_env sample_db (Some ''u-alice'') ''t-milk'' (Some (no_fields\<lparr>b_title := JNull\<rparr>)) =
     (Response (Error_json ''Internal server error'') 500, sample_db\<lparr>issued := [(SELECT, ''tasks'')]\<rparr>) \<and>
   tasks (sample_db\<lparr>issued := [(SELECT, ''tasks'')]\<rparr>) = [milk] \<and> title milk = ''Buy milk''"
  by code_simp

end
